theory Spec2Isabelle
  imports Complex_Main "HOL-Library.Word"
begin

unbundle bit_operations_syntax

section \<open>The rotating magnet filament monitor\<close>

text \<open>
  A shallow embedding of \<^verbatim>\<open>RotatingMagnetFilamentMonitor.cpp\<close>. The monitor object is a
  record, every member function takes the record and returns the updated one, and what a
  member function reads from its collaborators (the receive buffer of the base class, the
  millisecond clock, the motion system) is an argument of the function.

  Machine integers are words of their width. The C++ \<^verbatim>\<open>float\<close> members are modelled
  as real numbers: rounding and overflow are not modelled. The theorems below are about
  which branch runs and which operands are combined. The concrete inputs they are evaluated
  at are binary fractions on which single precision arithmetic is exact; where a quotient
  is not, this is said, and it is compared with a threshold it misses by a wide margin.
  A division is the one operation of the monitor that leaves the finite numbers without an
  overflow: a quotient is a value of the type \<open>cfloat\<close> below, which has the two infinities
  and NaN, and so are the two members that store a quotient.
\<close>

type_synonym uint8_t = "8 word"
type_synonym uint16_t = "16 word"
type_synonym uint32_t = "32 word"

subsection \<open>Data\<close>

datatype MagneticMonitorState = idle | calibrating | comparing

datatype FilamentSensorStatus =
    Status_ok
  | Status_noFilament
  | Status_tooLittleMovement
  | Status_tooMuchMovement
  | Status_sensorError
  | Status_noDataReceived

text \<open>
  What \<^verbatim>\<open>PollReceiveBuffer(val)\<close> hands to one iteration of the loop in
  \<^verbatim>\<open>HandleIncomingData\<close>: a completed word or a framing error. The third result of the
  source, \<^verbatim>\<open>PollResult::incomplete\<close>, ends the loop; it is the end of the list of polled
  items.
\<close>

datatype PollResult = PollComplete uint16_t | PollError

text \<open>
  One iteration of the loop also reads the clock (\<^verbatim>\<open>millis()\<close>) and the motion system
  (\<^verbatim>\<open>reprap.GetMove().ExtruderPrintingSince()\<close>); the values it would read travel with the
  polled item.
\<close>

record polled =
  res :: PollResult
  millisAtPoll :: uint32_t
  extruderPrintingSince :: uint32_t

text \<open>
  The result of a \<^verbatim>\<open>float\<close> division: a finite number, or what IEEE 754 arithmetic gives
  for a divisor zero.
\<close>

datatype cfloat = Finite real | PlusInf | MinusInf | NaN

text \<open>
  \<^verbatim>\<open>x / y\<close>. A nonzero number over zero is an infinity, zero over zero is NaN. The sign
  of the infinity is the sign of \<open>x\<close>: the divisors of the monitor are sums of an accumulator
  that starts at \<^verbatim>\<open>0.0\<close>, and such a sum is never the negative zero.
\<close>

definition fdiv :: "real \<Rightarrow> real \<Rightarrow> cfloat" where
  "fdiv x y =
     (if y \<noteq> 0 then Finite (x / y)
      else if x > 0 then PlusInf
      else if x < 0 then MinusInf
      else NaN)"

text \<open>\<^verbatim>\<open>ratio * m\<close> for a quotient and a finite number: infinity times zero is NaN.\<close>

fun fmul :: "cfloat \<Rightarrow> real \<Rightarrow> cfloat" where
  "fmul (Finite r) m = Finite (r * m)"
| "fmul PlusInf m = (if m > 0 then PlusInf else if m < 0 then MinusInf else NaN)"
| "fmul MinusInf m = (if m > 0 then MinusInf else if m < 0 then PlusInf else NaN)"
| "fmul NaN m = NaN"

text \<open>\<^verbatim>\<open>a < b\<close>: false as soon as one side is NaN.\<close>

fun fless :: "cfloat \<Rightarrow> cfloat \<Rightarrow> bool" where
  "fless NaN b = False"
| "fless a NaN = False"
| "fless (Finite a) (Finite b) = (a < b)"
| "fless (Finite a) PlusInf = True"
| "fless (Finite a) MinusInf = False"
| "fless PlusInf b = False"
| "fless MinusInf MinusInf = False"
| "fless MinusInf b = True"

text \<open>
  The members of the monitor that the member functions below read or write. The class
  declaration is not among the sources; the types are the ones the member functions'
  use of the members fixes. The version, the last error code, the magnitude and the AGC
  value are only ever assigned \<^verbatim>\<open>val & 0x00FF\<close> or a small constant: a byte holds
  them, whatever the declared width.
\<close>

record monitor =
  mmPerRev :: real
  minMovementAllowed :: real
  maxMovementAllowed :: real
  minimumExtrusionCheckLength :: real
  comparisonEnabled :: bool
  checkNonPrintingMoves :: bool
  switchOpenMask :: uint16_t
  dataReceived :: bool
  sensorValue :: uint16_t
  parityErrorCount :: uint32_t
  framingErrorCount :: uint32_t
  overrunErrorCount :: uint32_t
  polarityErrorCount :: uint32_t
  overdueCount :: uint32_t
  lastMeasurementTime :: uint32_t
  lastErrorCode :: uint8_t
  version :: uint8_t
  magnitude :: uint8_t
  agc :: uint8_t
  backwards :: bool
  sensorError :: bool
  extrusionCommandedThisSegment :: real
  extrusionCommandedSinceLastSync :: real
  movementMeasuredThisSegment :: real
  movementMeasuredSinceLastSync :: real
  magneticMonitorState :: MagneticMonitorState
  haveStartBitData :: bool
  synced :: bool
  extrusionCommandedAtCandidateStartBit :: real
  wasPrintingAtStartBit :: bool
  candidateStartBitTime :: uint32_t
  lastSyncTime :: uint32_t
  totalExtrusionCommanded :: real
  totalMovementMeasured :: real
  minMovementRatio :: cfloat
  maxMovementRatio :: cfloat

subsection \<open>Constants\<close>

text \<open>
  Modelled from the spec: the header \<^verbatim>\<open>RotatingMagnetFilamentMonitor.h\<close> that declares
  the bit masks is not among the sources. Their values are the ones fixed by the word
  layouts written in the decoder (version 1 data word \<^verbatim>\<open>0S00 00pp pppppppp\<close>, error word
  \<^verbatim>\<open>1000 0000 00000000\<close>; version 2 data word \<^verbatim>\<open>P00S 10pp pppppppp\<close>, error word
  \<^verbatim>\<open>P010 0000 0000eeee\<close>, version word \<^verbatim>\<open>P110 0000 vvvvvvvv\<close>, magnitude word
  \<^verbatim>\<open>P110 0010 mmmmmmmm\<close>, AGC word \<^verbatim>\<open>P110 0011 aaaaaaaa\<close>) and by the 10-bit angle field
  and the 2-bit message type and info type fields of the specification.
\<close>

definition TypeMagnetV1ErrorMask :: uint16_t where
  "TypeMagnetV1ErrorMask = 0x8000"

definition TypeMagnetV1SwitchOpenMask :: uint16_t where
  "TypeMagnetV1SwitchOpenMask = 0x4000"

definition TypeMagnetV2SwitchOpenMask :: uint16_t where
  "TypeMagnetV2SwitchOpenMask = 0x1000"

definition TypeMagnetAngleMask :: uint16_t where
  "TypeMagnetAngleMask = 0x03FF"

definition TypeMagnetV2MessageTypeMask :: uint16_t where
  "TypeMagnetV2MessageTypeMask = 0x6C00"

definition TypeMagnetV2MessageTypePosition :: uint16_t where
  "TypeMagnetV2MessageTypePosition = 0x0800"

definition TypeMagnetV2MessageTypeError :: uint16_t where
  "TypeMagnetV2MessageTypeError = 0x2000"

definition TypeMagnetV2MessageTypeInfo :: uint16_t where
  "TypeMagnetV2MessageTypeInfo = 0x6000"

definition TypeMagnetV2InfoTypeMask :: uint16_t where
  "TypeMagnetV2InfoTypeMask = 0x1F00"

definition TypeMagnetV2InfoTypeVersion :: uint16_t where
  "TypeMagnetV2InfoTypeVersion = 0x0000"

definition TypeMagnetV3InfoTypeMagnitude :: uint16_t where
  "TypeMagnetV3InfoTypeMagnitude = 0x0200"

definition TypeMagnetV3InfoTypeAgc :: uint16_t where
  "TypeMagnetV3InfoTypeAgc = 0x0300"

definition SyncDelayMillis :: int where
  "SyncDelayMillis = 10"

subsection \<open>Initialisation\<close>

text \<open>\<^verbatim>\<open>Reset()\<close>: the four accumulators, the calibration state and the synchronisation.\<close>

definition Reset :: "monitor \<Rightarrow> monitor" where
  "Reset s = s\<lparr>
     extrusionCommandedThisSegment := 0,
     extrusionCommandedSinceLastSync := 0,
     movementMeasuredThisSegment := 0,
     movementMeasuredSinceLastSync := 0,
     magneticMonitorState := idle,
     haveStartBitData := False,
     synced := False\<rparr>"

text \<open>
  \<^verbatim>\<open>Init()\<close>. \<^verbatim>\<open>InitReceiveBuffer()\<close> belongs to the base class and touches no member of
  the record.
\<close>

definition Init :: "monitor \<Rightarrow> monitor" where
  "Init s = Reset (s\<lparr>
     dataReceived := False,
     sensorValue := 0,
     parityErrorCount := 0,
     framingErrorCount := 0,
     overrunErrorCount := 0,
     polarityErrorCount := 0,
     overdueCount := 0,
     lastMeasurementTime := 0,
     lastErrorCode := 0,
     version := 1,
     magnitude := 0,
     agc := 0,
     backwards := False,
     sensorError := False\<rparr>)"

definition HaveCalibrationData :: "monitor \<Rightarrow> bool" where
  "HaveCalibrationData s =
     (magneticMonitorState s \<noteq> calibrating \<and> totalExtrusionCommanded s > 10)"

definition MeasuredSensitivity :: "monitor \<Rightarrow> cfloat" where
  "MeasuredSensitivity s = fdiv (totalExtrusionCommanded s) (totalMovementMeasured s)"

subsection \<open>The word decoder\<close>

text \<open>
  The parity fold at the head of the loop body: \<^verbatim>\<open>data8\<close> is the exclusive or of the two
  bytes of the word, folded onto its lowest bit.
\<close>

definition parityFold :: "uint16_t \<Rightarrow> uint8_t" where
  "parityFold val =
     (let d0 = (ucast (drop_bit 8 val XOR val) :: uint8_t);
          d1 = d0 XOR drop_bit 4 d0;
          d2 = d1 XOR drop_bit 2 d1
      in d2 XOR drop_bit 1 d2)"

text \<open>
  The classification of a completed word (the \<^verbatim>\<open>if (version == 1) ... else ...\<close> of the
  loop body). The result is the updated monitor and the local flag
  \<^verbatim>\<open>receivedPositionReport\<close>.
\<close>

definition decodeWord :: "uint16_t \<Rightarrow> monitor \<Rightarrow> monitor \<times> bool" where
  "decodeWord val s =
     (let data8 = parityFold val in
      if version s = 1 then
        (if data8 AND 1 = 0 \<and> val AND 0x7F00 = 0x6000 \<and> 2 \<le> val AND 0x00FF then
           (s\<lparr>version := ucast (val AND 0x00FF),
               switchOpenMask :=
                 (if switchOpenMask s \<noteq> 0 then TypeMagnetV2SwitchOpenMask
                  else switchOpenMask s)\<rparr>, False)
         else if val = TypeMagnetV1ErrorMask then
           (s\<lparr>sensorError := True, lastErrorCode := 0\<rparr>, False)
         else if val AND 0xBC00 = 0 then
           (s\<lparr>dataReceived := True, sensorError := False\<rparr>, True)
         else (s, False))
      else if data8 AND 1 \<noteq> 0 then
        (s\<lparr>parityErrorCount := parityErrorCount s + 1\<rparr>, False)
      else if val AND TypeMagnetV2MessageTypeMask = TypeMagnetV2MessageTypePosition then
        (s\<lparr>dataReceived := True, sensorError := False\<rparr>, True)
      else if val AND TypeMagnetV2MessageTypeMask = TypeMagnetV2MessageTypeError then
        (s\<lparr>lastErrorCode := ucast (val AND 0x00FF),
            sensorError := ((ucast (val AND 0x00FF) :: uint8_t) \<noteq> 0)\<rparr>, False)
      else if val AND TypeMagnetV2MessageTypeMask = TypeMagnetV2MessageTypeInfo then
        (if val AND TypeMagnetV2InfoTypeMask = TypeMagnetV2InfoTypeVersion then
           (s\<lparr>version := ucast (val AND 0x00FF)\<rparr>, False)
         else if val AND TypeMagnetV2InfoTypeMask = TypeMagnetV3InfoTypeMagnitude then
           (s\<lparr>magnitude := ucast (val AND 0x00FF)\<rparr>, False)
         else if val AND TypeMagnetV2InfoTypeMask = TypeMagnetV3InfoTypeAgc then
           (s\<lparr>agc := ucast (val AND 0x00FF)\<rparr>, False)
         else (s, False))
      else (s, False))"

subsection \<open>The angle tracker\<close>

text \<open>
  \<^verbatim>\<open>const uint16_t angleChange = (val - sensorValue) & TypeMagnetAngleMask\<close>. The
  operands are promoted to \<^verbatim>\<open>int\<close> and the masked difference is stored in 16 bits; the
  mask keeps the low ten bits only, so the difference of the 16-bit words gives the same
  value.
\<close>

definition angleChange :: "uint16_t \<Rightarrow> uint16_t \<Rightarrow> uint16_t" where
  "angleChange val sv = (val - sv) AND TypeMagnetAngleMask"

text \<open>
  \<^verbatim>\<open>const int32_t movement = (angleChange <= 512) ? (int32_t)angleChange
  : (int32_t)angleChange - 1024\<close>.
\<close>

definition movement :: "uint16_t \<Rightarrow> int" where
  "movement ac = (if ac \<le> 512 then uint ac else uint ac - 1024)"

text \<open>The three assignments that follow: accumulator, stored word, time of the report.\<close>

definition trackAngle :: "uint16_t \<Rightarrow> uint32_t \<Rightarrow> monitor \<Rightarrow> monitor" where
  "trackAngle val now s = s\<lparr>
     movementMeasuredSinceLastSync :=
       movementMeasuredSinceLastSync s
         + real_of_int (movement (angleChange val (sensorValue s))) / 1024,
     sensorValue := val,
     lastMeasurementTime := now\<rparr>"

subsection \<open>The sync engine\<close>

text \<open>
  The test that lets a window through: \<^verbatim>\<open>checkNonPrintingMoves || (wasPrintingAtStartBit
  && (int32_t)(lastSyncTime - ExtruderPrintingSince()) >= SyncDelayMillis)\<close>. The 32-bit
  difference wraps and is read as a signed number.
\<close>

definition trustWindow :: "uint32_t \<Rightarrow> monitor \<Rightarrow> bool" where
  "trustWindow printingSince s =
     (checkNonPrintingMoves s
      \<or> (wasPrintingAtStartBit s \<and> SyncDelayMillis \<le> sint (lastSyncTime s - printingSince)))"

text \<open>The body of \<^verbatim>\<open>if (haveStartBitData) { ... }\<close>.\<close>

definition syncToStartBit :: "uint32_t \<Rightarrow> monitor \<Rightarrow> monitor" where
  "syncToStartBit printingSince s =
     (let s1 =
        (if synced s \<and> trustWindow printingSince s then
           s\<lparr>extrusionCommandedThisSegment :=
                extrusionCommandedThisSegment s + extrusionCommandedAtCandidateStartBit s,
              movementMeasuredThisSegment :=
                movementMeasuredThisSegment s + movementMeasuredSinceLastSync s\<rparr>
         else s)
      in s1\<lparr>
         lastSyncTime := candidateStartBitTime s1,
         extrusionCommandedSinceLastSync :=
           extrusionCommandedSinceLastSync s1 - extrusionCommandedAtCandidateStartBit s1,
         movementMeasuredSinceLastSync := 0,
         synced := (checkNonPrintingMoves s1 \<or> wasPrintingAtStartBit s1)\<rparr>)"

text \<open>The body of \<^verbatim>\<open>if (receivedPositionReport) { ... }\<close>.\<close>

definition positionReport :: "uint16_t \<Rightarrow> uint32_t \<Rightarrow> uint32_t \<Rightarrow> monitor \<Rightarrow> monitor" where
  "positionReport val now printingSince s =
     (let s1 = trackAngle val now s in
      if haveStartBitData s1 then syncToStartBit printingSince s1 else s1)"

text \<open>One iteration of the \<^verbatim>\<open>while\<close> loop of \<^verbatim>\<open>HandleIncomingData\<close>.\<close>

definition handlePolled :: "polled \<Rightarrow> monitor \<Rightarrow> monitor" where
  "handlePolled p s =
     (let s2 =
        (case res p of
           PollComplete val \<Rightarrow>
             (case decodeWord val s of
                (s1, receivedPositionReport) \<Rightarrow>
                  if receivedPositionReport
                  then positionReport val (millisAtPoll p) (extruderPrintingSince p) s1
                  else s1)
         | PollError \<Rightarrow> s\<lparr>framingErrorCount := framingErrorCount s + 1\<rparr>)
      in s2\<lparr>haveStartBitData := False\<rparr>)"

text \<open>
  \<^verbatim>\<open>HandleIncomingData()\<close>: the loop runs once for every item the receive buffer holds
  and stops when the buffer answers \<^verbatim>\<open>incomplete\<close>. The buffer is drained by the poll, so
  the items polled in one call are a finite list.
\<close>

fun HandleIncomingData :: "polled list \<Rightarrow> monitor \<Rightarrow> monitor" where
  "HandleIncomingData [] s = s"
| "HandleIncomingData (p # ps) s = HandleIncomingData ps (handlePolled p s)"

subsection \<open>The calibration and comparison state machine\<close>

text \<open>
  \<^verbatim>\<open>CheckFilament(amountCommanded, amountMeasured, overdue)\<close>. The debug print has no
  effect on the monitor; \<^verbatim>\<open>overdue\<close> is used by it alone.
\<close>

definition CheckFilament ::
  "real \<Rightarrow> real \<Rightarrow> bool \<Rightarrow> monitor \<Rightarrow> FilamentSensorStatus \<times> monitor" where
  "CheckFilament amountCommanded amountMeasured overdue s =
     (if \<not> dataReceived s then (Status_noDataReceived, s)
      else case magneticMonitorState s of
        idle \<Rightarrow>
          (Status_ok,
           s\<lparr>magneticMonitorState := calibrating,
              totalExtrusionCommanded := amountCommanded,
              totalMovementMeasured := amountMeasured\<rparr>)
      | calibrating \<Rightarrow>
          (let tec = totalExtrusionCommanded s + amountCommanded;
               tmm = totalMovementMeasured s + amountMeasured;
               s1 = s\<lparr>totalExtrusionCommanded := tec, totalMovementMeasured := tmm\<rparr>
           in if tec \<ge> 10 then
                (let bw = (tmm < 0);
                     tmm2 = (if bw then - tmm else tmm);
                     ratio = fdiv tmm2 tec;
                     s2 = s1\<lparr>backwards := bw, totalMovementMeasured := tmm2,
                             minMovementRatio := ratio, maxMovementRatio := ratio,
                             magneticMonitorState := comparing\<rparr>;
                     ratio2 = fmul ratio (mmPerRev s)
                 in ((if comparisonEnabled s then
                        (if fless ratio2 (Finite (minMovementAllowed s))
                         then Status_tooLittleMovement
                         else if fless (Finite (maxMovementAllowed s)) ratio2
                         then Status_tooMuchMovement
                         else Status_ok)
                      else Status_ok), s2))
              else (Status_ok, s1))
      | comparing \<Rightarrow>
          (let tec = totalExtrusionCommanded s + amountCommanded;
               am = (if backwards s then - amountMeasured else amountMeasured);
               tmm = totalMovementMeasured s + am;
               ratio = fdiv am amountCommanded;
               s1 = s\<lparr>totalExtrusionCommanded := tec, totalMovementMeasured := tmm\<rparr>;
               s2 = (if fless (maxMovementRatio s1) ratio then s1\<lparr>maxMovementRatio := ratio\<rparr>
                     else if fless ratio (minMovementRatio s1)
                     then s1\<lparr>minMovementRatio := ratio\<rparr>
                     else s1);
               ratio2 = fmul ratio (mmPerRev s)
           in ((if comparisonEnabled s then
                  (if fless ratio2 (Finite (minMovementAllowed s))
                   then Status_tooLittleMovement
                   else if fless (Finite (maxMovementAllowed s)) ratio2
                   then Status_tooMuchMovement
                   else Status_ok)
                else Status_ok), s2)))"

text \<open>
  The fault decision that \<^verbatim>\<open>CheckFilament\<close> writes out twice, once for the window that
  completes the calibration and once for a window in the comparing state: the ratio is
  multiplied by a sensitivity and compared with the two allowed fractions.
\<close>

definition faultDecision :: "real \<Rightarrow> cfloat \<Rightarrow> monitor \<Rightarrow> FilamentSensorStatus" where
  "faultDecision sensitivity ratio s =
     (if fless (fmul ratio sensitivity) (Finite (minMovementAllowed s))
      then Status_tooLittleMovement
      else if fless (Finite (maxMovementAllowed s)) (fmul ratio sensitivity)
      then Status_tooMuchMovement
      else Status_ok)"

text \<open>Consecutive calls of \<^verbatim>\<open>CheckFilament\<close>, one for each window of the list.\<close>

fun CheckFilamentRun :: "(real \<times> real \<times> bool) list \<Rightarrow> monitor \<Rightarrow> monitor" where
  "CheckFilamentRun [] s = s"
| "CheckFilamentRun ((amountCommanded, amountMeasured, overdue) # ws) s =
     CheckFilamentRun ws (snd (CheckFilament amountCommanded amountMeasured overdue s))"

subsection \<open>The periodic check\<close>

text \<open>
  Steps 1 to 3 of \<^verbatim>\<open>Check\<close>: add the extrusion commanded, store the candidate when the
  call comes from the interrupt and the receiver waits for a start bit
  (\<^verbatim>\<open>IsWaitingForStartBit()\<close>, a question to the base class, is the argument
  \<open>waitingForStartBit\<close>), and process the receive buffer.
\<close>

definition CheckIncoming ::
  "bool \<Rightarrow> bool \<Rightarrow> uint32_t \<Rightarrow> real \<Rightarrow> bool \<Rightarrow> polled list \<Rightarrow> monitor \<Rightarrow> monitor" where
  "CheckIncoming isPrinting fromIsr isrMillis filamentConsumed waitingForStartBit items s =
     (let s1 = s\<lparr>extrusionCommandedSinceLastSync :=
                    extrusionCommandedSinceLastSync s + filamentConsumed\<rparr>;
          s2 = (if fromIsr \<and> waitingForStartBit then
                  s1\<lparr>extrusionCommandedAtCandidateStartBit := extrusionCommandedSinceLastSync s1,
                     wasPrintingAtStartBit := isPrinting,
                     candidateStartBitTime := isrMillis,
                     haveStartBitData := True\<rparr>
                else s1)
      in HandleIncomingData items s2)"

text \<open>
  Step 4 of \<^verbatim>\<open>Check\<close>: \<open>now\<close> is what \<^verbatim>\<open>millis()\<close> returns there and \<open>receiving\<close>
  what \<^verbatim>\<open>IsReceiving()\<close> returns.
\<close>

definition CheckDecide ::
  "uint32_t \<Rightarrow> bool \<Rightarrow> monitor \<Rightarrow> FilamentSensorStatus \<times> monitor" where
  "CheckDecide now receiving s =
     (case
        (if sensorError s then (Status_sensorError, s)
         else if sensorValue s AND switchOpenMask s \<noteq> 0 then (Status_noFilament, s)
         else if extrusionCommandedThisSegment s \<ge> minimumExtrusionCheckLength s then
           (case CheckFilament (extrusionCommandedThisSegment s)
                   (movementMeasuredThisSegment s) False s of
              (ret, s1) \<Rightarrow>
                (ret, s1\<lparr>extrusionCommandedThisSegment := 0,
                         movementMeasuredThisSegment := 0\<rparr>))
         else if extrusionCommandedThisSegment s + extrusionCommandedSinceLastSync s
                   \<ge> minimumExtrusionCheckLength s * 3
                 \<and> now - lastMeasurementTime s > 500
                 \<and> \<not> receiving then
           (case CheckFilament
                   (extrusionCommandedThisSegment s + extrusionCommandedSinceLastSync s)
                   (movementMeasuredThisSegment s + movementMeasuredSinceLastSync s) True s of
              (ret, s1) \<Rightarrow>
                (ret, s1\<lparr>extrusionCommandedThisSegment := 0,
                         extrusionCommandedSinceLastSync := 0,
                         movementMeasuredThisSegment := 0,
                         movementMeasuredSinceLastSync := 0\<rparr>))
         else (Status_ok, s)) of
        (ret, s') \<Rightarrow> ((if comparisonEnabled s' then ret else Status_ok), s'))"

text \<open>
  The condition of the last \<^verbatim>\<open>else if\<close> of step 4, under which a sync is overdue.
\<close>

definition syncOverdue :: "uint32_t \<Rightarrow> bool \<Rightarrow> monitor \<Rightarrow> bool" where
  "syncOverdue now receiving s =
     (extrusionCommandedThisSegment s + extrusionCommandedSinceLastSync s
        \<ge> minimumExtrusionCheckLength s * 3
      \<and> now - lastMeasurementTime s > 500
      \<and> \<not> receiving)"

text \<open>
  \<^verbatim>\<open>Check(isPrinting, fromIsr, isrMillis, filamentConsumed)\<close> with what it reads from
  outside: the answer of \<^verbatim>\<open>IsWaitingForStartBit()\<close>, the items polled from the receive
  buffer, the clock of step 4 and the answer of \<^verbatim>\<open>IsReceiving()\<close>.
\<close>

definition Check ::
  "bool \<Rightarrow> bool \<Rightarrow> uint32_t \<Rightarrow> real \<Rightarrow> bool \<Rightarrow> polled list \<Rightarrow> uint32_t \<Rightarrow> bool
     \<Rightarrow> monitor \<Rightarrow> FilamentSensorStatus \<times> monitor" where
  "Check isPrinting fromIsr isrMillis filamentConsumed waitingForStartBit items now receiving s =
     CheckDecide now receiving
       (CheckIncoming isPrinting fromIsr isrMillis filamentConsumed waitingForStartBit items s)"

text \<open>\<^verbatim>\<open>Clear()\<close>: reset, drain the receive buffer, report the sensor's presence.\<close>

definition Clear :: "polled list \<Rightarrow> monitor \<Rightarrow> FilamentSensorStatus \<times> monitor" where
  "Clear items s =
     (let s1 = HandleIncomingData items (Reset s) in
      ((if \<not> comparisonEnabled s1 then Status_ok
        else if \<not> dataReceived s1 then Status_noDataReceived
        else if sensorError s1 then Status_sensorError
        else if sensorValue s1 AND switchOpenMask s1 \<noteq> 0 then Status_noFilament
        else Status_ok), s1))"

subsection \<open>Concrete monitors and inputs\<close>

text \<open>
  A monitor as construction and configuration leave it, after \<^verbatim>\<open>Init()\<close>: sensitivity
  16 mm per revolution, 75 to 150 percent allowed, a check every 3 mm, comparison enabled,
  printing moves only, a sensor with a switch. The members \<^verbatim>\<open>Init()\<close> does not assign
  are zero.
\<close>

definition exampleMonitor :: monitor where
  "exampleMonitor = Init \<lparr>
     mmPerRev = 16, minMovementAllowed = 3/4, maxMovementAllowed = 3/2,
     minimumExtrusionCheckLength = 3, comparisonEnabled = True, checkNonPrintingMoves = False,
     switchOpenMask = 0x4000, dataReceived = False, sensorValue = 0,
     parityErrorCount = 0, framingErrorCount = 0, overrunErrorCount = 0,
     polarityErrorCount = 0, overdueCount = 0, lastMeasurementTime = 0,
     lastErrorCode = 0, version = 0, magnitude = 0, agc = 0, backwards = False,
     sensorError = False, extrusionCommandedThisSegment = 0,
     extrusionCommandedSinceLastSync = 0, movementMeasuredThisSegment = 0,
     movementMeasuredSinceLastSync = 0, magneticMonitorState = idle,
     haveStartBitData = False, synced = False, extrusionCommandedAtCandidateStartBit = 0,
     wasPrintingAtStartBit = False, candidateStartBitTime = 0, lastSyncTime = 0,
     totalExtrusionCommanded = 0, totalMovementMeasured = 0, minMovementRatio = Finite 0,
     maxMovementRatio = Finite 0\<rparr>"

text \<open>A completed word polled at time \<open>now\<close>, the extruder printing since time 0.\<close>

definition polledWord :: "uint16_t \<Rightarrow> uint32_t \<Rightarrow> polled" where
  "polledWord val now = \<lparr>res = PollComplete val, millisAtPoll = now, extruderPrintingSince = 0\<rparr>"

text \<open>A framing error polled at time \<open>now\<close>.\<close>

definition polledFramingError :: "uint32_t \<Rightarrow> polled" where
  "polledFramingError now = \<lparr>res = PollError, millisAtPoll = now, extruderPrintingSince = 0\<rparr>"

text \<open>The example monitor after a first position word, angle 5, polled at time 0.\<close>

definition receivingMonitor :: monitor where
  "receivingMonitor = HandleIncomingData [polledWord 0x0005 0] exampleMonitor"

text \<open>
  The same monitor after two comparison windows of 8 mm and one revolution each: the
  second window completes the calibration.
\<close>

definition comparingMonitor :: monitor where
  "comparingMonitor = CheckFilamentRun [(8, 1, False), (8, 1, False)] receivingMonitor"

text \<open>
  A run of the periodic check on the example monitor, 1 mm of extrusion commanded in every
  call. The interrupt sees a start bit at time 100 while printing; the word, a position
  report, is complete at time 102; the interrupt sees the next start bit at time 200.
\<close>

definition firstCandidate :: monitor where
  "firstCandidate = snd (Check True True 100 1 True [] 100 True exampleMonitor)"

definition afterFirstSync :: monitor where
  "afterFirstSync =
     snd (Check True False 0 1 False [polledWord 0x0005 102] 102 False firstCandidate)"

definition secondCandidate :: monitor where
  "secondCandidate = snd (Check True True 200 1 True [] 200 True afterFirstSync)"

text \<open>
  The next call of the check adds another 1 mm in its step 1; this is the monitor on which
  its step 3 then processes the second position report.
\<close>

definition atSecondReport :: monitor where
  "atSecondReport = secondCandidate\<lparr>extrusionCommandedSinceLastSync :=
      extrusionCommandedSinceLastSync secondCandidate + 1\<rparr>"

text \<open>The same run when the second start bit falls into a move that is not a printing move.\<close>

definition secondCandidateNotPrinting :: monitor where
  "secondCandidateNotPrinting = snd (Check False True 200 1 True [] 200 True afterFirstSync)"

definition atNonPrintingReport :: monitor where
  "atNonPrintingReport = secondCandidateNotPrinting\<lparr>extrusionCommandedSinceLastSync :=
      extrusionCommandedSinceLastSync secondCandidateNotPrinting + 1\<rparr>"

text \<open>
  Steps 1 to 3 of a check of the example monitor with 16 mm commanded, when the sensor has
  sent a version word (version 3) and an error word (error code 1) and no position word.
\<close>

definition erroredMonitor :: monitor where
  "erroredMonitor = CheckIncoming True False 0 16 False
     [polledWord 0x6003 0, polledWord 0x2001 1] exampleMonitor"

text \<open>The same when the sensor has sent the version 1 error word alone.\<close>

definition v1ErroredMonitor :: monitor where
  "v1ErroredMonitor = CheckIncoming True False 0 16 False [polledWord 0x8000 0] exampleMonitor"

text \<open>
  A run of four checks of the example monitor, 16 mm commanded in each, every comparison
  forced by an overdue sync. A position word arrives before each check: the wheel turns two
  steps backwards twice (angles 1022 and 1020), \<^verbatim>\<open>Clear()\<close> is called, and the wheel
  turns two steps forwards twice (angles 1022 and 0).
\<close>

definition calibratingBackwards :: monitor where
  "calibratingBackwards =
     snd (Check True False 0 16 False [polledWord 0x03FE 0] 1000 False exampleMonitor)"

definition calibratedBackwards :: monitor where
  "calibratedBackwards =
     snd (Check True False 0 16 False [polledWord 0x03FC 1000] 2000 False calibratingBackwards)"

definition clearedMonitor :: monitor where
  "clearedMonitor = snd (Clear [] calibratedBackwards)"

definition recalibrating :: monitor where
  "recalibrating =
     snd (Check True False 0 16 False [polledWord 0x03FE 2000] 3000 False clearedMonitor)"

definition recalibrated :: monitor where
  "recalibrated =
     snd (Check True False 0 16 False [polledWord 0x0000 3000] 4000 False recalibrating)"

section \<open>Properties\<close>

subsection \<open>Auxiliary facts\<close>

lemmas masks =
  TypeMagnetV1ErrorMask_def TypeMagnetV1SwitchOpenMask_def TypeMagnetV2SwitchOpenMask_def
  TypeMagnetAngleMask_def TypeMagnetV2MessageTypeMask_def TypeMagnetV2MessageTypePosition_def
  TypeMagnetV2MessageTypeError_def TypeMagnetV2MessageTypeInfo_def TypeMagnetV2InfoTypeMask_def
  TypeMagnetV2InfoTypeVersion_def TypeMagnetV3InfoTypeMagnitude_def TypeMagnetV3InfoTypeAgc_def

lemmas example_defs =
  exampleMonitor_def Init_def Reset_def polledWord_def polledFramingError_def

text \<open>The two masks with the low bits set are bit truncations.\<close>

lemma and_angle_mask: "(w :: uint16_t) AND 0x03FF = take_bit 10 w"
proof -
  have "(0x03FF :: uint16_t) = mask 10" by (simp add: mask_eq_exp_minus_1)
  then show ?thesis by (simp add: take_bit_eq_mask)
qed


lemma uint_and_angle_mask: "uint ((w :: uint16_t) AND 0x03FF) = uint w mod 1024"
  by (simp only: and_angle_mask unsigned_take_bit_eq) (simp add: take_bit_eq_mod)



text \<open>The angle change, read as a number, is the difference of the two angle fields modulo 1024.\<close>

lemma angleChange_uint:
  "uint (angleChange val sv)
     = (uint (val AND TypeMagnetAngleMask) - uint (sv AND TypeMagnetAngleMask)) mod 1024"
proof -
  have "uint (angleChange val sv) = ((uint val - uint sv) mod 65536) mod 1024"
    by (simp add: angleChange_def TypeMagnetAngleMask_def uint_and_angle_mask uint_word_ariths)
  also have "\<dots> = (uint val - uint sv) mod 1024"
    by (rule mod_mod_cancel) simp
  also have "\<dots> = (uint val mod 1024 - uint sv mod 1024) mod 1024"
    by (simp add: mod_diff_eq)
  finally show ?thesis
    by (simp add: TypeMagnetAngleMask_def uint_and_angle_mask)
qed

lemma angleChange_range:
  "0 \<le> uint (angleChange val sv) \<and> uint (angleChange val sv) \<le> 1023"
  by (simp add: angleChange_uint)

lemma movement_eq: "movement ac = (if uint ac \<le> 512 then uint ac else uint ac - 1024)"
  by (simp add: movement_def word_le_def)

lemma wrap_range:
  "0 \<le> (u::int) \<Longrightarrow> u \<le> 1023 \<Longrightarrow>
   - 511 \<le> (if u \<le> 512 then u else u - 1024) \<and> (if u \<le> 512 then u else u - 1024) \<le> 512"
  by auto

lemma movement_range:
  "- 511 \<le> movement (angleChange val sv) \<and> movement (angleChange val sv) \<le> 512"
  unfolding movement_eq
  by (rule wrap_range) (simp_all add: angleChange_uint)

text \<open>A word classified as a position report changes two members only.\<close>

lemma decodeWord_position_v1:
  "version s = 1 \<Longrightarrow>
   snd (decodeWord val s) \<longrightarrow>
     fst (decodeWord val s) = s\<lparr>dataReceived := True, sensorError := False\<rparr>"
  by (simp add: decodeWord_def Let_def)

lemma decodeWord_position_v2:
  "version s \<noteq> 1 \<Longrightarrow>
   snd (decodeWord val s) \<longrightarrow>
     fst (decodeWord val s) = s\<lparr>dataReceived := True, sensorError := False\<rparr>"
  by (simp add: decodeWord_def Let_def)

lemma decodeWord_position:
  assumes "snd (decodeWord val s)"
  shows "fst (decodeWord val s) = s\<lparr>dataReceived := True, sensorError := False\<rparr>"
  using assms decodeWord_position_v1 [of s val] decodeWord_position_v2 [of s val]
  by blast

lemma syncToStartBit_sensor [simp]:
  "sensorError (syncToStartBit e s) = sensorError s"
  "lastErrorCode (syncToStartBit e s) = lastErrorCode s"
  by (simp_all add: syncToStartBit_def Let_def)

lemma positionReport_sensor [simp]:
  "sensorError (positionReport val now e s) = sensorError s"
  "lastErrorCode (positionReport val now e s) = lastErrorCode s"
  by (simp_all add: positionReport_def trackAngle_def Let_def)

lemma positionReport_no_start_bit:
  "\<not> haveStartBitData s \<Longrightarrow> positionReport val now e s = trackAngle val now s"
  by (simp add: positionReport_def trackAngle_def Let_def)

lemma handlePolled_position:
  assumes "res p = PollComplete val" and "snd (decodeWord val s)"
  shows "handlePolled p s =
    (positionReport val (millisAtPoll p) (extruderPrintingSince p)
       (s\<lparr>dataReceived := True, sensorError := False\<rparr>))\<lparr>haveStartBitData := False\<rparr>"
proof -
  obtain s1 b where d: "decodeWord val s = (s1, b)" by (cases "decodeWord val s")
  with assms(2) decodeWord_position [OF assms(2)]
  have "b" and "s1 = s\<lparr>dataReceived := True, sensorError := False\<rparr>" by simp_all
  with d assms(1) show ?thesis by (simp add: handlePolled_def)
qed

lemma handlePolled_clears: "\<not> haveStartBitData (handlePolled p s)"
  by (simp add: handlePolled_def Let_def)

lemma HandleIncomingData_snoc:
  "HandleIncomingData (ps @ [p]) s = handlePolled p (HandleIncomingData ps s)"
  by (induction ps arbitrary: s) simp_all



text \<open>Evaluation of the concrete runs unfolds these definitions.\<close>

lemma fdiv_nonzero [simp]: "y \<noteq> 0 \<Longrightarrow> fdiv x y = Finite (x / y)"
  by (simp add: fdiv_def)

lemmas run_defs = Check_def CheckIncoming_def CheckDecide_def CheckFilament_def handlePolled_def
  decodeWord_def parityFold_def positionReport_def trackAngle_def syncToStartBit_def
  trustWindow_def angleChange_def movement_def SyncDelayMillis_def masks Let_def

text \<open>\<^verbatim>\<open>CheckFilament\<close>, branch by branch.\<close>

lemma CheckFilament_no_data:
  "\<not> dataReceived s \<Longrightarrow> CheckFilament ac am od s = (Status_noDataReceived, s)"
  by (simp add: CheckFilament_def)

lemma CheckFilament_idle:
  "dataReceived s \<Longrightarrow> magneticMonitorState s = idle \<Longrightarrow>
   CheckFilament ac am od s =
     (Status_ok, s\<lparr>magneticMonitorState := calibrating,
                    totalExtrusionCommanded := ac, totalMovementMeasured := am\<rparr>)"
  by (simp add: CheckFilament_def)

lemma CheckFilament_calibrating_short:
  "dataReceived s \<Longrightarrow> magneticMonitorState s = calibrating \<Longrightarrow>
   totalExtrusionCommanded s + ac < 10 \<Longrightarrow>
   CheckFilament ac am od s =
     (Status_ok, s\<lparr>totalExtrusionCommanded := totalExtrusionCommanded s + ac,
                    totalMovementMeasured := totalMovementMeasured s + am\<rparr>)"
  by (simp add: CheckFilament_def Let_def)

lemma CheckFilament_calibrating_done:
  "dataReceived s \<Longrightarrow> magneticMonitorState s = calibrating \<Longrightarrow>
   10 \<le> totalExtrusionCommanded s + ac \<Longrightarrow>
   CheckFilament ac am od s =
     ((if comparisonEnabled s
       then faultDecision (mmPerRev s)
              (Finite (\<bar>totalMovementMeasured s + am\<bar> / (totalExtrusionCommanded s + ac))) s
       else Status_ok),
      s\<lparr>totalExtrusionCommanded := totalExtrusionCommanded s + ac,
        totalMovementMeasured := \<bar>totalMovementMeasured s + am\<bar>,
        backwards := (totalMovementMeasured s + am < 0),
        minMovementRatio :=
          Finite (\<bar>totalMovementMeasured s + am\<bar> / (totalExtrusionCommanded s + ac)),
        maxMovementRatio :=
          Finite (\<bar>totalMovementMeasured s + am\<bar> / (totalExtrusionCommanded s + ac)),
        magneticMonitorState := comparing\<rparr>)"
  by (simp add: CheckFilament_def Let_def faultDecision_def abs_if)

lemma CheckFilament_comparing_status:
  "dataReceived s \<Longrightarrow> magneticMonitorState s = comparing \<Longrightarrow>
   fst (CheckFilament ac am od s) =
     (if comparisonEnabled s
      then faultDecision (mmPerRev s) (fdiv (if backwards s then - am else am) ac) s
      else Status_ok)"
  by (simp add: CheckFilament_def Let_def faultDecision_def)

lemma CheckFilament_comparing_keeps:
  "magneticMonitorState s = comparing \<Longrightarrow>
   magneticMonitorState (snd (CheckFilament ac am od s)) = comparing
   \<and> backwards (snd (CheckFilament ac am od s)) = backwards s"
  by (simp add: CheckFilament_def Let_def)

lemma CheckFilamentRun_comparing_keeps:
  "magneticMonitorState s = comparing \<Longrightarrow>
   magneticMonitorState (CheckFilamentRun ws s) = comparing
   \<and> backwards (CheckFilamentRun ws s) = backwards s"
proof (induction ws arbitrary: s)
  case Nil
  then show ?case by simp
next
  case (Cons w ws)
  obtain ac am od where w: "w = (ac, am, od)" by (cases w)
  from Cons.prems CheckFilament_comparing_keeps [of s ac am od]
  have k: "magneticMonitorState (snd (CheckFilament ac am od s)) = comparing"
     "backwards (snd (CheckFilament ac am od s)) = backwards s" by simp_all
  from Cons.IH [OF k(1)] k(2) w show ?case by simp
qed

lemma CheckFilament_comparisonEnabled [simp]:
  "comparisonEnabled (snd (CheckFilament ac am od s)) = comparisonEnabled s"
proof (cases "dataReceived s")
  case False
  then show ?thesis by (simp add: CheckFilament_def)
next
  case True
  then show ?thesis
    by (cases "magneticMonitorState s") (simp_all add: CheckFilament_def Let_def)
qed

lemma CheckFilament_status_cases:
  "(\<not> dataReceived s \<and> fst (CheckFilament ac am od s) = Status_noDataReceived)
   \<or> (dataReceived s \<and> fst (CheckFilament ac am od s) = Status_ok)
   \<or> (dataReceived s \<and> comparisonEnabled s
       \<and> (fst (CheckFilament ac am od s) = Status_tooLittleMovement
            \<or> fst (CheckFilament ac am od s) = Status_tooMuchMovement))"
proof (cases "dataReceived s")
  case False
  then show ?thesis by (simp add: CheckFilament_def)
next
  case True
  then show ?thesis
    by (cases "magneticMonitorState s") (simp_all add: CheckFilament_def Let_def)
qed

text \<open>Step 4 of the check, branch by branch.\<close>

lemma CheckDecide_sensorError:
  "sensorError s \<Longrightarrow>
   CheckDecide now receiving s = ((if comparisonEnabled s then Status_sensorError else Status_ok), s)"
  by (simp add: CheckDecide_def)

lemma CheckDecide_noFilament:
  "\<not> sensorError s \<Longrightarrow> sensorValue s AND switchOpenMask s \<noteq> 0 \<Longrightarrow>
   CheckDecide now receiving s = ((if comparisonEnabled s then Status_noFilament else Status_ok), s)"
  by (simp add: CheckDecide_def)

lemma CheckDecide_window:
  assumes "\<not> sensorError s" and "sensorValue s AND switchOpenMask s = 0"
    and "minimumExtrusionCheckLength s \<le> extrusionCommandedThisSegment s"
  shows "CheckDecide now receiving s =
    ((if comparisonEnabled s
      then fst (CheckFilament (extrusionCommandedThisSegment s) (movementMeasuredThisSegment s) False s)
      else Status_ok),
     (snd (CheckFilament (extrusionCommandedThisSegment s) (movementMeasuredThisSegment s) False s))
       \<lparr>extrusionCommandedThisSegment := 0, movementMeasuredThisSegment := 0\<rparr>)"
proof -
  obtain ret s1 where c: "CheckFilament (extrusionCommandedThisSegment s)
      (movementMeasuredThisSegment s) False s = (ret, s1)"
    by (cases "CheckFilament (extrusionCommandedThisSegment s) (movementMeasuredThisSegment s) False s")
  have "comparisonEnabled s1 = comparisonEnabled s"
    using CheckFilament_comparisonEnabled [of "extrusionCommandedThisSegment s"
        "movementMeasuredThisSegment s" False s] c by simp
  with assms c show ?thesis by (simp add: CheckDecide_def)
qed

lemma CheckDecide_overdue:
  assumes "\<not> sensorError s" and "sensorValue s AND switchOpenMask s = 0"
    and "extrusionCommandedThisSegment s < minimumExtrusionCheckLength s"
    and "syncOverdue now receiving s"
  shows "CheckDecide now receiving s =
    ((if comparisonEnabled s
      then fst (CheckFilament (extrusionCommandedThisSegment s + extrusionCommandedSinceLastSync s)
                  (movementMeasuredThisSegment s + movementMeasuredSinceLastSync s) True s)
      else Status_ok),
     (snd (CheckFilament (extrusionCommandedThisSegment s + extrusionCommandedSinceLastSync s)
             (movementMeasuredThisSegment s + movementMeasuredSinceLastSync s) True s))
       \<lparr>extrusionCommandedThisSegment := 0, extrusionCommandedSinceLastSync := 0,
        movementMeasuredThisSegment := 0, movementMeasuredSinceLastSync := 0\<rparr>)"
proof -
  let ?c = "CheckFilament (extrusionCommandedThisSegment s + extrusionCommandedSinceLastSync s)
                  (movementMeasuredThisSegment s + movementMeasuredSinceLastSync s) True s"
  obtain ret s1 where c: "?c = (ret, s1)" by (cases ?c)
  have "comparisonEnabled s1 = comparisonEnabled s"
    using CheckFilament_comparisonEnabled [of
        "extrusionCommandedThisSegment s + extrusionCommandedSinceLastSync s"
        "movementMeasuredThisSegment s + movementMeasuredSinceLastSync s" True s] c by simp
  with assms c show ?thesis by (simp add: CheckDecide_def syncOverdue_def)
qed

lemma CheckDecide_not_due:
  assumes "\<not> sensorError s" and "sensorValue s AND switchOpenMask s = 0"
    and "extrusionCommandedThisSegment s < minimumExtrusionCheckLength s"
    and "\<not> syncOverdue now receiving s"
  shows "CheckDecide now receiving s = (Status_ok, s)"
  using assms by (auto simp add: CheckDecide_def syncOverdue_def)

text \<open>The synchronisation to a start bit, with and without a transfer.\<close>

lemma positionReport_start_bit:
  "haveStartBitData s \<Longrightarrow>
   positionReport val now e s = syncToStartBit e (trackAngle val now s)"
  by (simp add: positionReport_def trackAngle_def Let_def)

lemma syncToStartBit_trusted:
  "synced s \<Longrightarrow> trustWindow e s \<Longrightarrow>
   syncToStartBit e s = s\<lparr>
     extrusionCommandedThisSegment :=
       extrusionCommandedThisSegment s + extrusionCommandedAtCandidateStartBit s,
     movementMeasuredThisSegment := movementMeasuredThisSegment s + movementMeasuredSinceLastSync s,
     lastSyncTime := candidateStartBitTime s,
     extrusionCommandedSinceLastSync :=
       extrusionCommandedSinceLastSync s - extrusionCommandedAtCandidateStartBit s,
     movementMeasuredSinceLastSync := 0,
     synced := (checkNonPrintingMoves s \<or> wasPrintingAtStartBit s)\<rparr>"
  by (simp add: syncToStartBit_def Let_def)

lemma syncToStartBit_discarded:
  "\<not> synced s \<or> \<not> trustWindow e s \<Longrightarrow>
   syncToStartBit e s = s\<lparr>
     lastSyncTime := candidateStartBitTime s,
     extrusionCommandedSinceLastSync :=
       extrusionCommandedSinceLastSync s - extrusionCommandedAtCandidateStartBit s,
     movementMeasuredSinceLastSync := 0,
     synced := (checkNonPrintingMoves s \<or> wasPrintingAtStartBit s)\<rparr>"
  by (cases "synced s"; cases "trustWindow e s") (simp_all add: syncToStartBit_def Let_def)

lemma trackAngle_sync_fields [simp]:
  "synced (trackAngle val now s) = synced s"
  "trustWindow e (trackAngle val now s) = trustWindow e s"
  "haveStartBitData (trackAngle val now s) = haveStartBitData s"
  by (simp_all add: trackAngle_def trustWindow_def)

lemma decoded_sync_fields [simp]:
  "synced (s\<lparr>dataReceived := True, sensorError := False\<rparr>) = synced s"
  "trustWindow e (s\<lparr>dataReceived := True, sensorError := False\<rparr>) = trustWindow e s"
  by (simp_all add: trustWindow_def)

lemma handlePolled_sync:
  assumes "res p = PollComplete val" and "snd (decodeWord val s)" and "haveStartBitData s"
  shows "handlePolled p s =
    (syncToStartBit (extruderPrintingSince p)
       (trackAngle val (millisAtPoll p) (s\<lparr>dataReceived := True, sensorError := False\<rparr>)))
       \<lparr>haveStartBitData := False\<rparr>"
  using assms by (simp add: handlePolled_position positionReport_start_bit)

text \<open>The concrete monitors, member by member.\<close>

lemma receivingMonitor_eq:
  "receivingMonitor = exampleMonitor\<lparr>dataReceived := True, sensorValue := 5,
     movementMeasuredSinceLastSync := 5 / 1024\<rparr>"
  by (simp add: receivingMonitor_def example_defs handlePolled_def decodeWord_def parityFold_def
        positionReport_def trackAngle_def angleChange_def movement_def masks Let_def)

lemma receivingMonitor_fields:
  "dataReceived receivingMonitor" "magneticMonitorState receivingMonitor = idle"
  "comparisonEnabled receivingMonitor" "mmPerRev receivingMonitor = 16"
  "minMovementAllowed receivingMonitor = 3/4" "maxMovementAllowed receivingMonitor = 3/2"
  by (simp_all add: receivingMonitor_def example_defs handlePolled_def decodeWord_def parityFold_def
        positionReport_def trackAngle_def masks Let_def)

lemma comparingMonitor_eq:
  "comparingMonitor = receivingMonitor\<lparr>
      totalExtrusionCommanded := 16, totalMovementMeasured := 2, backwards := False,
      minMovementRatio := Finite (1 / 8), maxMovementRatio := Finite (1 / 8),
      magneticMonitorState := comparing\<rparr>"
  by (simp add: comparingMonitor_def CheckFilament_idle CheckFilament_calibrating_done
        receivingMonitor_fields)

lemma comparingMonitor_fields:
  "dataReceived comparingMonitor" "magneticMonitorState comparingMonitor = comparing"
  "comparisonEnabled comparingMonitor" "mmPerRev comparingMonitor = 16"
  "minMovementAllowed comparingMonitor = 3/4" "maxMovementAllowed comparingMonitor = 3/2"
  "totalExtrusionCommanded comparingMonitor = 16" "totalMovementMeasured comparingMonitor = 2"
  "\<not> backwards comparingMonitor"
  by (simp_all add: comparingMonitor_eq receivingMonitor_fields)

lemma firstCandidate_eq:
  "firstCandidate = exampleMonitor\<lparr>
     extrusionCommandedSinceLastSync := 1, extrusionCommandedAtCandidateStartBit := 1,
     wasPrintingAtStartBit := True, candidateStartBitTime := 100, haveStartBitData := True\<rparr>"
  by (simp add: firstCandidate_def example_defs run_defs)

lemma afterFirstSync_eq:
  "afterFirstSync = exampleMonitor\<lparr>
     extrusionCommandedSinceLastSync := 1, extrusionCommandedAtCandidateStartBit := 1,
     wasPrintingAtStartBit := True, candidateStartBitTime := 100, haveStartBitData := False,
     dataReceived := True, sensorValue := 5, lastMeasurementTime := 102,
     lastSyncTime := 100, synced := True\<rparr>"
  by (simp add: afterFirstSync_def firstCandidate_eq example_defs run_defs)

lemma secondCandidate_eq:
  "secondCandidate = exampleMonitor\<lparr>
     extrusionCommandedSinceLastSync := 2, extrusionCommandedAtCandidateStartBit := 2,
     wasPrintingAtStartBit := True, candidateStartBitTime := 200, haveStartBitData := True,
     dataReceived := True, sensorValue := 5, lastMeasurementTime := 102,
     lastSyncTime := 100, synced := True\<rparr>"
  by (simp add: secondCandidate_def afterFirstSync_eq example_defs run_defs)

lemma atSecondReport_eq:
  "atSecondReport = exampleMonitor\<lparr>
     extrusionCommandedSinceLastSync := 3, extrusionCommandedAtCandidateStartBit := 2,
     wasPrintingAtStartBit := True, candidateStartBitTime := 200, haveStartBitData := True,
     dataReceived := True, sensorValue := 5, lastMeasurementTime := 102,
     lastSyncTime := 100, synced := True\<rparr>"
  by (simp add: atSecondReport_def secondCandidate_eq example_defs)

lemma atSecondReport_step:
  "handlePolled (polledWord 0x0025 202) atSecondReport = exampleMonitor\<lparr>
     extrusionCommandedSinceLastSync := 1, extrusionCommandedAtCandidateStartBit := 2,
     wasPrintingAtStartBit := True, candidateStartBitTime := 200, haveStartBitData := False,
     dataReceived := True, sensorValue := 0x25, lastMeasurementTime := 202,
     lastSyncTime := 200, synced := True,
     extrusionCommandedThisSegment := 2, movementMeasuredThisSegment := 1 / 32\<rparr>"
  by (simp add: atSecondReport_eq example_defs run_defs)

lemma atSecondReport_hyps:
  "res (polledWord 0x0025 202) = PollComplete 0x0025"
  "snd (decodeWord 0x0025 atSecondReport)"
  "haveStartBitData atSecondReport"
  "synced atSecondReport"
  "trustWindow (extruderPrintingSince (polledWord 0x0025 202)) atSecondReport"
  by (simp_all add: atSecondReport_eq example_defs decodeWord_def parityFold_def trustWindow_def
       SyncDelayMillis_def masks Let_def)

lemma atNonPrintingReport_eq:
  "atNonPrintingReport = exampleMonitor\<lparr>
     extrusionCommandedSinceLastSync := 3, extrusionCommandedAtCandidateStartBit := 2,
     wasPrintingAtStartBit := False, candidateStartBitTime := 200, haveStartBitData := True,
     dataReceived := True, sensorValue := 5, lastMeasurementTime := 102,
     lastSyncTime := 100, synced := True\<rparr>"
  by (simp add: atNonPrintingReport_def secondCandidateNotPrinting_def afterFirstSync_eq
        example_defs run_defs)

lemma atNonPrintingReport_step:
  "handlePolled (polledWord 0x0025 202) atNonPrintingReport = exampleMonitor\<lparr>
     extrusionCommandedSinceLastSync := 1, extrusionCommandedAtCandidateStartBit := 2,
     wasPrintingAtStartBit := False, candidateStartBitTime := 200, haveStartBitData := False,
     dataReceived := True, sensorValue := 0x25, lastMeasurementTime := 202,
     lastSyncTime := 200, synced := False\<rparr>"
  by (simp add: atNonPrintingReport_eq example_defs run_defs)

lemma erroredMonitor_eq:
  "erroredMonitor = exampleMonitor\<lparr>extrusionCommandedSinceLastSync := 16, version := 3,
     switchOpenMask := 0x1000, lastErrorCode := 1, sensorError := True\<rparr>"
  by (simp add: erroredMonitor_def CheckIncoming_def example_defs handlePolled_def decodeWord_def
        parityFold_def masks Let_def)

lemma v1ErroredMonitor_eq:
  "v1ErroredMonitor = exampleMonitor\<lparr>extrusionCommandedSinceLastSync := 16, sensorError := True\<rparr>"
  by (simp add: v1ErroredMonitor_def CheckIncoming_def example_defs handlePolled_def decodeWord_def
        parityFold_def masks Let_def)

lemma calibratingBackwards_eq:
  "calibratingBackwards = exampleMonitor\<lparr>
     dataReceived := True, sensorValue := 0x03FE, lastMeasurementTime := 0,
     magneticMonitorState := calibrating,
     totalExtrusionCommanded := 16, totalMovementMeasured := - 1 / 512\<rparr>"
  by (simp add: calibratingBackwards_def example_defs run_defs)

lemma calibratedBackwards_eq:
  "calibratedBackwards = exampleMonitor\<lparr>
     dataReceived := True, sensorValue := 0x03FC, lastMeasurementTime := 1000,
     magneticMonitorState := comparing, backwards := True,
     totalExtrusionCommanded := 32, totalMovementMeasured := 1 / 256,
     minMovementRatio := Finite (1 / 8192), maxMovementRatio := Finite (1 / 8192)\<rparr>"
  by (simp add: calibratedBackwards_def calibratingBackwards_eq example_defs run_defs)

lemma clearedMonitor_eq:
  "clearedMonitor = exampleMonitor\<lparr>
     dataReceived := True, sensorValue := 0x03FC, lastMeasurementTime := 1000,
     magneticMonitorState := idle, backwards := True,
     totalExtrusionCommanded := 32, totalMovementMeasured := 1 / 256,
     minMovementRatio := Finite (1 / 8192), maxMovementRatio := Finite (1 / 8192)\<rparr>"
  by (simp add: clearedMonitor_def Clear_def calibratedBackwards_eq example_defs)

lemma recalibrating_eq:
  "recalibrating = exampleMonitor\<lparr>
     dataReceived := True, sensorValue := 0x03FE, lastMeasurementTime := 2000,
     magneticMonitorState := calibrating, backwards := True,
     totalExtrusionCommanded := 16, totalMovementMeasured := 1 / 512,
     minMovementRatio := Finite (1 / 8192), maxMovementRatio := Finite (1 / 8192)\<rparr>"
  by (simp add: recalibrating_def clearedMonitor_eq example_defs run_defs)

lemma recalibrated_eq:
  "recalibrated = exampleMonitor\<lparr>
     dataReceived := True, sensorValue := 0, lastMeasurementTime := 3000,
     magneticMonitorState := comparing, backwards := False,
     totalExtrusionCommanded := 32, totalMovementMeasured := 1 / 256,
     minMovementRatio := Finite (1 / 8192), maxMovementRatio := Finite (1 / 8192)\<rparr>"
  by (simp add: recalibrated_def recalibrating_eq example_defs run_defs)

text \<open>A polled item that is not a position report: what the loop iteration does with it.\<close>

lemma handlePolled_not_position:
  assumes "res p = PollComplete val" and "\<not> snd (decodeWord val s)"
  shows "handlePolled p s = (fst (decodeWord val s))\<lparr>haveStartBitData := False\<rparr>"
proof -
  obtain s1 b where d: "decodeWord val s = (s1, b)" by (cases "decodeWord val s")
  with assms show ?thesis by (simp add: handlePolled_def)
qed

lemma handlePolled_framing_error:
  "res p = PollError \<Longrightarrow>
   handlePolled p s = s\<lparr>framingErrorCount := framingErrorCount s + 1, haveStartBitData := False\<rparr>"
  by (simp add: handlePolled_def)

lemma decodeWord_tracker_v1:
  "version s = 1 \<Longrightarrow>
   sensorValue (fst (decodeWord val s)) = sensorValue s
   \<and> movementMeasuredSinceLastSync (fst (decodeWord val s)) = movementMeasuredSinceLastSync s"
  by (simp add: decodeWord_def Let_def)

lemma decodeWord_tracker_v2:
  "version s \<noteq> 1 \<Longrightarrow>
   sensorValue (fst (decodeWord val s)) = sensorValue s
   \<and> movementMeasuredSinceLastSync (fst (decodeWord val s)) = movementMeasuredSinceLastSync s"
  by (simp add: decodeWord_def Let_def)

lemma decodeWord_tracker:
  "sensorValue (fst (decodeWord val s)) = sensorValue s
   \<and> movementMeasuredSinceLastSync (fst (decodeWord val s)) = movementMeasuredSinceLastSync s"
  using decodeWord_tracker_v1 [of s val] decodeWord_tracker_v2 [of s val] by blast

text \<open>A position report in the loop iteration: the members the angle tracker writes.\<close>

lemma handlePolled_position_tracked:
  assumes "res p = PollComplete val" and "snd (decodeWord val s)"
  shows "sensorValue (handlePolled p s) = val
     \<and> lastMeasurementTime (handlePolled p s) = millisAtPoll p
     \<and> (\<not> haveStartBitData s \<longrightarrow>
          movementMeasuredSinceLastSync (handlePolled p s)
            = movementMeasuredSinceLastSync s
              + real_of_int (movement (angleChange val (sensorValue s))) / 1024)
     \<and> (haveStartBitData s \<longrightarrow>
          movementMeasuredSinceLastSync (handlePolled p s) = 0
          \<and> movementMeasuredThisSegment (handlePolled p s)
              = (if synced s \<and> trustWindow (extruderPrintingSince p) s
                 then movementMeasuredThisSegment s
                      + (movementMeasuredSinceLastSync s
                         + real_of_int (movement (angleChange val (sensorValue s))) / 1024)
                 else movementMeasuredThisSegment s))"
proof (cases "haveStartBitData s")
  case False
  then show ?thesis
    by (simp add: handlePolled_position [OF assms] positionReport_no_start_bit)
       (simp add: trackAngle_def)
next
  case True
  let ?t = "trackAngle val (millisAtPoll p) (s\<lparr>dataReceived := True, sensorError := False\<rparr>)"
  note h = handlePolled_sync [OF assms True]
  consider (transfer) "synced s" "trustWindow (extruderPrintingSince p) s"
    | (unsynced) "\<not> synced s" | (untrusted) "\<not> trustWindow (extruderPrintingSince p) s"
    by blast
  then show ?thesis
  proof cases
    case transfer
    then have "synced ?t" "trustWindow (extruderPrintingSince p) ?t" by simp_all
    from syncToStartBit_trusted [OF this] transfer True show ?thesis
      by (simp add: h) (simp add: trackAngle_def)
  next
    case unsynced
    then have "\<not> synced ?t \<or> \<not> trustWindow (extruderPrintingSince p) ?t" by simp
    from syncToStartBit_discarded [OF this] unsynced True show ?thesis
      by (simp add: h) (simp add: trackAngle_def)
  next
    case untrusted
    then have "\<not> synced ?t \<or> \<not> trustWindow (extruderPrintingSince p) ?t" by simp
    from syncToStartBit_discarded [OF this] untrusted True show ?thesis
      by (simp add: h) (simp add: trackAngle_def)
  qed
qed



lemma syncToStartBit_version [simp]: "version (syncToStartBit e s) = version s"
  by (simp add: syncToStartBit_def Let_def)

lemma positionReport_version [simp]: "version (positionReport val now e s) = version s"
  by (simp add: positionReport_def trackAngle_def Let_def)


subsection \<open>The angle tracker\<close>

text \<open>
  Claim C2. For every stored word and every new position word, the angle change the decoder
  computes is the difference of the two words' 10-bit angle fields modulo 1024, a number from
  0 to 1023; the signed movement is that number when it is at most 512 and that number minus
  1024 otherwise, so it lies between -511 and 512 and is at most half a revolution in size;
  and the tracker adds movement/1024 to the since-last-sync movement accumulator. (Real
  arithmetic stands for the \<^verbatim>\<open>float\<close> addition.)

  In the loop of \<^verbatim>\<open>HandleIncomingData\<close>: a completed word that the decoder classifies as
  a position report becomes the stored word, the time of the report is recorded, and
  movement/1024 is added to the accumulator; this is the accumulator's value after the
  iteration when no start-bit candidate is pending, and with a candidate pending the sum is
  what the sync engine transfers or discards before it sets the accumulator to zero. A
  completed word that is not a position report, and a framing error, leave the stored word
  and the accumulator as they are.
\<close>

theorem angle_tracker_movement:
  "uint (angleChange val sv)
     = (uint (val AND TypeMagnetAngleMask) - uint (sv AND TypeMagnetAngleMask)) mod 1024
   \<and> 0 \<le> uint (angleChange val sv) \<and> uint (angleChange val sv) \<le> 1023
   \<and> movement (angleChange val sv)
       = (if uint (angleChange val sv) \<le> 512 then uint (angleChange val sv)
          else uint (angleChange val sv) - 1024)
   \<and> - 511 \<le> movement (angleChange val sv) \<and> movement (angleChange val sv) \<le> 512
   \<and> \<bar>real_of_int (movement (angleChange val sv)) / 1024\<bar> \<le> 1 / 2
   \<and> movementMeasuredSinceLastSync (trackAngle val now s)
       = movementMeasuredSinceLastSync s
         + real_of_int (movement (angleChange val (sensorValue s))) / 1024
   \<and> (\<not> haveStartBitData s \<longrightarrow>
        movementMeasuredSinceLastSync (positionReport val now e s)
          = movementMeasuredSinceLastSync s
            + real_of_int (movement (angleChange val (sensorValue s))) / 1024)
   \<and> (res p = PollComplete val \<and> snd (decodeWord val s) \<longrightarrow>
        sensorValue (handlePolled p s) = val
        \<and> lastMeasurementTime (handlePolled p s) = millisAtPoll p
        \<and> (\<not> haveStartBitData s \<longrightarrow>
             movementMeasuredSinceLastSync (handlePolled p s)
               = movementMeasuredSinceLastSync s
                 + real_of_int (movement (angleChange val (sensorValue s))) / 1024)
        \<and> (haveStartBitData s \<longrightarrow>
             movementMeasuredSinceLastSync (handlePolled p s) = 0
             \<and> movementMeasuredThisSegment (handlePolled p s)
                 = (if synced s \<and> trustWindow (extruderPrintingSince p) s
                    then movementMeasuredThisSegment s
                         + (movementMeasuredSinceLastSync s
                            + real_of_int (movement (angleChange val (sensorValue s))) / 1024)
                    else movementMeasuredThisSegment s)))
   \<and> (res p = PollComplete val \<and> \<not> snd (decodeWord val s) \<longrightarrow>
        sensorValue (handlePolled p s) = sensorValue s
        \<and> movementMeasuredSinceLastSync (handlePolled p s) = movementMeasuredSinceLastSync s)
   \<and> (res p = PollError \<longrightarrow>
        sensorValue (handlePolled p s) = sensorValue s
        \<and> movementMeasuredSinceLastSync (handlePolled p s) = movementMeasuredSinceLastSync s)
   \<and> HandleIncomingData [p] s = handlePolled p s"
proof -
  have r: "- 511 \<le> movement (angleChange val sv)" "movement (angleChange val sv) \<le> 512"
    using movement_range [of val sv] by simp_all
  have "\<bar>real_of_int (movement (angleChange val sv))\<bar> \<le> 512"
    using r by linarith
  then have h: "\<bar>real_of_int (movement (angleChange val sv)) / 1024\<bar> \<le> 1 / 2"
    by simp
  have t: "movementMeasuredSinceLastSync (trackAngle val now s)
       = movementMeasuredSinceLastSync s
         + real_of_int (movement (angleChange val (sensorValue s))) / 1024"
    by (simp add: trackAngle_def)
  have arith: "uint (angleChange val sv)
     = (uint (val AND TypeMagnetAngleMask) - uint (sv AND TypeMagnetAngleMask)) mod 1024
   \<and> 0 \<le> uint (angleChange val sv) \<and> uint (angleChange val sv) \<le> 1023
   \<and> movement (angleChange val sv)
       = (if uint (angleChange val sv) \<le> 512 then uint (angleChange val sv)
          else uint (angleChange val sv) - 1024)
   \<and> - 511 \<le> movement (angleChange val sv) \<and> movement (angleChange val sv) \<le> 512
   \<and> \<bar>real_of_int (movement (angleChange val sv)) / 1024\<bar> \<le> 1 / 2
   \<and> movementMeasuredSinceLastSync (trackAngle val now s)
       = movementMeasuredSinceLastSync s
         + real_of_int (movement (angleChange val (sensorValue s))) / 1024
   \<and> (\<not> haveStartBitData s \<longrightarrow>
        movementMeasuredSinceLastSync (positionReport val now e s)
          = movementMeasuredSinceLastSync s
            + real_of_int (movement (angleChange val (sensorValue s))) / 1024)"
    using angleChange_uint [of val sv] angleChange_range [of val sv] movement_eq r h t
    by (simp add: positionReport_no_start_bit)
  have pos: "res p = PollComplete val \<and> snd (decodeWord val s) \<longrightarrow>
        sensorValue (handlePolled p s) = val
        \<and> lastMeasurementTime (handlePolled p s) = millisAtPoll p
        \<and> (\<not> haveStartBitData s \<longrightarrow>
             movementMeasuredSinceLastSync (handlePolled p s)
               = movementMeasuredSinceLastSync s
                 + real_of_int (movement (angleChange val (sensorValue s))) / 1024)
        \<and> (haveStartBitData s \<longrightarrow>
             movementMeasuredSinceLastSync (handlePolled p s) = 0
             \<and> movementMeasuredThisSegment (handlePolled p s)
                 = (if synced s \<and> trustWindow (extruderPrintingSince p) s
                    then movementMeasuredThisSegment s
                         + (movementMeasuredSinceLastSync s
                            + real_of_int (movement (angleChange val (sensorValue s))) / 1024)
                    else movementMeasuredThisSegment s))"
    using handlePolled_position_tracked [of p val s] by blast
  have other: "res p = PollComplete val \<and> \<not> snd (decodeWord val s) \<longrightarrow>
        sensorValue (handlePolled p s) = sensorValue s
        \<and> movementMeasuredSinceLastSync (handlePolled p s) = movementMeasuredSinceLastSync s"
    using decodeWord_tracker [of val s] by (simp add: handlePolled_not_position)
  have err: "res p = PollError \<longrightarrow>
        sensorValue (handlePolled p s) = sensorValue s
        \<and> movementMeasuredSinceLastSync (handlePolled p s) = movementMeasuredSinceLastSync s"
    by (simp add: handlePolled_framing_error)
  have one: "HandleIncomingData [p] s = handlePolled p s" by simp
  from arith pos other err one show ?thesis by blast
qed

text \<open>
  The theorem at a wrap: from angle 5 to angle 1022 the wheel has moved 7 steps backwards,
  from 1022 to 5 it has moved 7 steps forwards. A first report of angle 1022 polled at time
  7 by the example monitor, which stores angle 0 and has no candidate pending, leaves
  -2/1024 in the accumulator, 1022 as the stored word and 7 as the time of the report; the
  version 1 error word leaves the stored word and the accumulator alone.
\<close>

theorem angle_tracker_movement_witness:
  "\<not> haveStartBitData exampleMonitor
   \<and> angleChange 0x03FE 0x0005 = 1017 \<and> movement (angleChange 0x03FE 0x0005) = - 7
   \<and> angleChange 0x0005 0x03FE = 7 \<and> movement (angleChange 0x0005 0x03FE) = 7
   \<and> movementMeasuredSinceLastSync (positionReport 0x03FE 0 0 exampleMonitor) = - 1 / 512
   \<and> snd (decodeWord 0x03FE exampleMonitor)
   \<and> sensorValue (HandleIncomingData [polledWord 0x03FE 7] exampleMonitor) = 0x03FE
   \<and> lastMeasurementTime (HandleIncomingData [polledWord 0x03FE 7] exampleMonitor) = 7
   \<and> movementMeasuredSinceLastSync (HandleIncomingData [polledWord 0x03FE 7] exampleMonitor)
       = - 1 / 512
   \<and> sensorValue (HandleIncomingData [polledWord 0x8000 7] exampleMonitor) = 0
   \<and> movementMeasuredSinceLastSync (HandleIncomingData [polledWord 0x8000 7] exampleMonitor) = 0"
proof -
  have n: "\<not> haveStartBitData exampleMonitor"
    by (simp add: example_defs)
  have a: "angleChange 0x0005 0x03FE = 7" "angleChange 0x03FE 0x0005 = 1017"
       "angleChange 0x03FE (sensorValue exampleMonitor) = 1022"
    by (simp_all add: angleChange_def TypeMagnetAngleMask_def example_defs)
  have m: "movementMeasuredSinceLastSync exampleMonitor = 0" "sensorValue exampleMonitor = 0"
    by (simp_all add: example_defs)
  have d: "snd (decodeWord 0x03FE exampleMonitor)" "\<not> snd (decodeWord 0x8000 exampleMonitor)"
    by (simp_all add: example_defs decodeWord_def parityFold_def masks Let_def)
  have p: "res (polledWord 0x03FE 7) = PollComplete 0x03FE"
      "res (polledWord 0x8000 7) = PollComplete 0x8000"
      "millisAtPoll (polledWord 0x03FE 7) = 7"
    by (simp_all add: polledWord_def)
  from angle_tracker_movement [of "0x03FE" "0x0005" 0 exampleMonitor 0 "polledWord 0x03FE 7"]
    n a m d(1) p
  have x: "movement (angleChange 0x03FE 0x0005) = - 7"
      "movementMeasuredSinceLastSync (positionReport 0x03FE 0 0 exampleMonitor) = - 1 / 512"
      "sensorValue (HandleIncomingData [polledWord 0x03FE 7] exampleMonitor) = 0x03FE"
      "lastMeasurementTime (HandleIncomingData [polledWord 0x03FE 7] exampleMonitor) = 7"
      "movementMeasuredSinceLastSync (HandleIncomingData [polledWord 0x03FE 7] exampleMonitor)
         = - 1 / 512"
    by (simp_all add: movement_def)
  from angle_tracker_movement [of "0x8000" "0x0005" 0 exampleMonitor 0 "polledWord 0x8000 7"]
    d(2) p m
  have y: "sensorValue (HandleIncomingData [polledWord 0x8000 7] exampleMonitor) = 0"
      "movementMeasuredSinceLastSync (HandleIncomingData [polledWord 0x8000 7] exampleMonitor) = 0"
    by simp_all
  have z: "movement (angleChange 0x0005 0x03FE) = 7"
    by (simp add: a movement_def)
  from n a d(1) x y z show ?thesis by simp
qed

subsection \<open>The word decoder\<close>



text \<open>
  Claim C10. When \<^verbatim>\<open>HandleIncomingData\<close> has polled at least one item from the receive
  buffer, whatever the items are (position reports, error words, version words, magnitude
  or AGC words, words rejected for their parity, framing errors), no start-bit candidate is
  pending afterwards.
\<close>

theorem polled_item_clears_start_bit_candidate:
  assumes "items \<noteq> []"
  shows "\<not> haveStartBitData (HandleIncomingData items s)"
proof (cases items rule: rev_cases)
  case Nil
  with assms show ?thesis by simp
next
  case (snoc ps p)
  then show ?thesis by (simp add: HandleIncomingData_snoc handlePolled_clears)
qed

text \<open>
  The theorem on a monitor with a pending candidate: a framing error alone discards it, and
  so does a word rejected for its odd parity under version 3 decoding.
\<close>

theorem polled_item_clears_start_bit_candidate_witness:
  "haveStartBitData (exampleMonitor\<lparr>haveStartBitData := True\<rparr>)
   \<and> \<not> haveStartBitData
         (HandleIncomingData [polledFramingError 0] (exampleMonitor\<lparr>haveStartBitData := True\<rparr>))
   \<and> parityErrorCount
         (HandleIncomingData [polledWord 0x6003 0, polledWord 0x0800 1]
            (exampleMonitor\<lparr>haveStartBitData := True\<rparr>)) = 1
   \<and> \<not> haveStartBitData
         (HandleIncomingData [polledWord 0x6003 0, polledWord 0x0800 1]
            (exampleMonitor\<lparr>haveStartBitData := True\<rparr>))"
proof -
  have a: "[polledFramingError 0] \<noteq> []" "[polledWord 0x6003 0, polledWord 0x0800 1] \<noteq> []"
    by simp_all
  have c: "parityErrorCount
         (HandleIncomingData [polledWord 0x6003 0, polledWord 0x0800 1]
            (exampleMonitor\<lparr>haveStartBitData := True\<rparr>)) = 1"
    by (simp add: example_defs handlePolled_def decodeWord_def parityFold_def masks Let_def)
  have h: "haveStartBitData (exampleMonitor\<lparr>haveStartBitData := True\<rparr>)"
    by simp
  from polled_item_clears_start_bit_candidate [OF a(1)]
    polled_item_clears_start_bit_candidate [OF a(2)] c h
  show ?thesis by blast
qed




subsection \<open>The sync engine\<close>

text \<open>
  Claim C3, as the code has it. For every word classified as a position report and
  processed while a start-bit candidate is pending: the extrusion commanded at the candidate
  start bit (not the whole since-last-sync extrusion accumulator) and the since-last-sync
  movement, this report's movement included, are added to the this-segment accumulators
  exactly when synced is true and the window is trusted, that is, check-all-moves is
  configured or the printing flag stored with the candidate is true and the signed 32-bit
  difference between the previous fence time and the extruder's printing-since time is at
  least 10 ms; otherwise the this-segment accumulators are unchanged. In all cases the fence
  time becomes the candidate's time, the candidate's extrusion is subtracted from the
  since-last-sync extrusion accumulator, the since-last-sync movement accumulator becomes
  zero, synced becomes (check-all-moves or the candidate's printing flag), and the candidate
  is cleared.
\<close>

theorem sync_on_position_report:
  assumes "res p = PollComplete val" and "snd (decodeWord val s)" and "haveStartBitData s"
  shows
    "extrusionCommandedThisSegment (handlePolled p s)
       = (if synced s \<and> trustWindow (extruderPrintingSince p) s
          then extrusionCommandedThisSegment s + extrusionCommandedAtCandidateStartBit s
          else extrusionCommandedThisSegment s)
     \<and> movementMeasuredThisSegment (handlePolled p s)
       = (if synced s \<and> trustWindow (extruderPrintingSince p) s
          then movementMeasuredThisSegment s
               + (movementMeasuredSinceLastSync s
                  + real_of_int (movement (angleChange val (sensorValue s))) / 1024)
          else movementMeasuredThisSegment s)
     \<and> trustWindow (extruderPrintingSince p) s
       = (checkNonPrintingMoves s
          \<or> (wasPrintingAtStartBit s \<and> 10 \<le> sint (lastSyncTime s - extruderPrintingSince p)))
     \<and> lastSyncTime (handlePolled p s) = candidateStartBitTime s
     \<and> extrusionCommandedSinceLastSync (handlePolled p s)
       = extrusionCommandedSinceLastSync s - extrusionCommandedAtCandidateStartBit s
     \<and> movementMeasuredSinceLastSync (handlePolled p s) = 0
     \<and> synced (handlePolled p s) = (checkNonPrintingMoves s \<or> wasPrintingAtStartBit s)
     \<and> \<not> haveStartBitData (handlePolled p s)"
proof -
  let ?t = "trackAngle val (millisAtPoll p) (s\<lparr>dataReceived := True, sensorError := False\<rparr>)"
  have w: "trustWindow (extruderPrintingSince p) s
       = (checkNonPrintingMoves s
          \<or> (wasPrintingAtStartBit s \<and> 10 \<le> sint (lastSyncTime s - extruderPrintingSince p)))"
    by (simp add: trustWindow_def SyncDelayMillis_def)
  consider (transfer) "synced s" "trustWindow (extruderPrintingSince p) s"
    | (unsynced) "\<not> synced s" | (untrusted) "\<not> trustWindow (extruderPrintingSince p) s"
    by blast
  then have "extrusionCommandedThisSegment (handlePolled p s)
       = (if synced s \<and> trustWindow (extruderPrintingSince p) s
          then extrusionCommandedThisSegment s + extrusionCommandedAtCandidateStartBit s
          else extrusionCommandedThisSegment s)
     \<and> movementMeasuredThisSegment (handlePolled p s)
       = (if synced s \<and> trustWindow (extruderPrintingSince p) s
          then movementMeasuredThisSegment s
               + (movementMeasuredSinceLastSync s
                  + real_of_int (movement (angleChange val (sensorValue s))) / 1024)
          else movementMeasuredThisSegment s)
     \<and> lastSyncTime (handlePolled p s) = candidateStartBitTime s
     \<and> extrusionCommandedSinceLastSync (handlePolled p s)
       = extrusionCommandedSinceLastSync s - extrusionCommandedAtCandidateStartBit s
     \<and> movementMeasuredSinceLastSync (handlePolled p s) = 0
     \<and> synced (handlePolled p s) = (checkNonPrintingMoves s \<or> wasPrintingAtStartBit s)
     \<and> \<not> haveStartBitData (handlePolled p s)"
  proof cases
    case transfer
    then have "synced ?t" "trustWindow (extruderPrintingSince p) ?t" by simp_all
    from syncToStartBit_trusted [OF this] transfer show ?thesis
      by (simp add: handlePolled_sync [OF assms]) (simp add: trackAngle_def)
  next
    case unsynced
    then have "\<not> synced ?t \<or> \<not> trustWindow (extruderPrintingSince p) ?t" by simp
    from syncToStartBit_discarded [OF this] unsynced show ?thesis
      by (simp add: handlePolled_sync [OF assms]) (simp add: trackAngle_def)
  next
    case untrusted
    then have "\<not> synced ?t \<or> \<not> trustWindow (extruderPrintingSince p) ?t" by simp
    from syncToStartBit_discarded [OF this] untrusted show ?thesis
      by (simp add: handlePolled_sync [OF assms]) (simp add: trackAngle_def)
  qed
  with w show ?thesis by blast
qed

text \<open>
  The theorem on the run: at the second position report the monitor is synced and the window
  is trusted, the candidate holds 2 mm, and the report moves the wheel by 32 steps.
\<close>

theorem sync_on_position_report_witness:
  "haveStartBitData atSecondReport \<and> synced atSecondReport
   \<and> trustWindow 0 atSecondReport
   \<and> extrusionCommandedAtCandidateStartBit atSecondReport = 2
   \<and> extrusionCommandedThisSegment (handlePolled (polledWord 0x0025 202) atSecondReport) = 2
   \<and> movementMeasuredThisSegment (handlePolled (polledWord 0x0025 202) atSecondReport) = 1 / 32
   \<and> extrusionCommandedSinceLastSync (handlePolled (polledWord 0x0025 202) atSecondReport) = 1
   \<and> lastSyncTime (handlePolled (polledWord 0x0025 202) atSecondReport) = 200
   \<and> synced (handlePolled (polledWord 0x0025 202) atSecondReport)"
proof -
  have f: "extrusionCommandedAtCandidateStartBit atSecondReport = 2"
      "extrusionCommandedThisSegment atSecondReport = 0"
      "movementMeasuredThisSegment atSecondReport = 0"
      "movementMeasuredSinceLastSync atSecondReport = 0"
      "extrusionCommandedSinceLastSync atSecondReport = 3"
      "candidateStartBitTime atSecondReport = 200"
      "wasPrintingAtStartBit atSecondReport"
      "sensorValue atSecondReport = 5"
    by (simp_all add: atSecondReport_eq example_defs)
  have t: "trustWindow 0 atSecondReport"
    using atSecondReport_hyps(5) by (simp add: polledWord_def)
  have m: "movement (angleChange 0x0025 5) = 32"
    by (simp add: angleChange_def movement_def masks)
  from sync_on_position_report [OF atSecondReport_hyps(1-3)] atSecondReport_hyps f t m
  show ?thesis by (simp add: polledWord_def)
qed

text \<open>
  Claim C3 as the specification states it fails twice. On the run, the since-last-sync
  extrusion accumulator holds 3 mm when the second report is processed and the transfer
  adds 2 mm, the candidate's amount, to the this-segment accumulator. And when the second
  start bit falls into a move that is not a printing move, nothing is transferred although
  synced is true, the previous start bit fell into a printing move and 100 ms lie between
  the printing-since time and that start bit: the flag the trust test reads is the
  candidate's.
\<close>

theorem transfer_adds_candidate_extrusion_only:
  "haveStartBitData atSecondReport \<and> synced atSecondReport \<and> trustWindow 0 atSecondReport
   \<and> extrusionCommandedThisSegment atSecondReport = 0
   \<and> extrusionCommandedSinceLastSync atSecondReport = 3
   \<and> extrusionCommandedThisSegment (handlePolled (polledWord 0x0025 202) atSecondReport) = 2
   \<and> extrusionCommandedThisSegment (handlePolled (polledWord 0x0025 202) atSecondReport)
       \<noteq> extrusionCommandedThisSegment atSecondReport
          + extrusionCommandedSinceLastSync atSecondReport
   \<and> haveStartBitData atNonPrintingReport \<and> synced atNonPrintingReport
   \<and> wasPrintingAtStartBit afterFirstSync
   \<and> lastSyncTime atNonPrintingReport = candidateStartBitTime afterFirstSync
   \<and> 10 \<le> sint (lastSyncTime atNonPrintingReport - 0)
   \<and> extrusionCommandedThisSegment (handlePolled (polledWord 0x0025 202) atNonPrintingReport)
       = extrusionCommandedThisSegment atNonPrintingReport
   \<and> movementMeasuredThisSegment (handlePolled (polledWord 0x0025 202) atNonPrintingReport)
       = movementMeasuredThisSegment atNonPrintingReport"
  by (simp add: atSecondReport_step atNonPrintingReport_step)
     (simp add: atSecondReport_eq atNonPrintingReport_eq afterFirstSync_eq example_defs
        trustWindow_def SyncDelayMillis_def)

text \<open>
  Claim C8, as the code has it. Right after a successful sync transfer the since-last-sync
  movement accumulator is zero, and the since-last-sync extrusion accumulator holds what it
  held before less the extrusion commanded at the candidate start bit: the extrusion
  commanded after the start bit stays in it. It is zero exactly when nothing was added to it
  between the start bit and the position report.
\<close>

theorem sync_transfer_leaves_residual:
  assumes "res p = PollComplete val" and "snd (decodeWord val s)" and "haveStartBitData s"
    and "synced s" and "trustWindow (extruderPrintingSince p) s"
  shows "movementMeasuredSinceLastSync (handlePolled p s) = 0
     \<and> extrusionCommandedSinceLastSync (handlePolled p s)
         = extrusionCommandedSinceLastSync s - extrusionCommandedAtCandidateStartBit s
     \<and> (extrusionCommandedSinceLastSync (handlePolled p s) = 0
          \<longleftrightarrow> extrusionCommandedSinceLastSync s = extrusionCommandedAtCandidateStartBit s)"
  using assms
  by (simp add: handlePolled_sync [OF assms(1-3)] syncToStartBit_trusted) (simp add: trackAngle_def)

text \<open>
  The theorem on the run: the transfer leaves 3 - 2 = 1 mm.
\<close>

theorem sync_transfer_leaves_residual_witness:
  "haveStartBitData atSecondReport \<and> synced atSecondReport \<and> trustWindow 0 atSecondReport
   \<and> movementMeasuredSinceLastSync (handlePolled (polledWord 0x0025 202) atSecondReport) = 0
   \<and> extrusionCommandedSinceLastSync (handlePolled (polledWord 0x0025 202) atSecondReport) = 1"
proof -
  have f: "extrusionCommandedAtCandidateStartBit atSecondReport = 2"
      "extrusionCommandedSinceLastSync atSecondReport = 3"
    by (simp_all add: atSecondReport_eq example_defs)
  have t: "trustWindow 0 atSecondReport"
    using atSecondReport_hyps(5) by (simp add: polledWord_def)
  from sync_transfer_leaves_residual [OF atSecondReport_hyps] atSecondReport_hyps(3,4) f t
  show ?thesis by simp
qed

text \<open>
  Claim C8 as the specification states it fails: on the run the second position report is a
  successful sync transfer (2 mm go to the this-segment accumulator), and the since-last-sync
  extrusion accumulator holds 1 mm after it.
\<close>

theorem since_last_sync_extrusion_not_zero_after_transfer:
  "haveStartBitData atSecondReport \<and> synced atSecondReport \<and> trustWindow 0 atSecondReport
   \<and> snd (decodeWord 0x0025 atSecondReport)
   \<and> extrusionCommandedThisSegment (handlePolled (polledWord 0x0025 202) atSecondReport)
       = extrusionCommandedThisSegment atSecondReport + 2
   \<and> extrusionCommandedSinceLastSync (handlePolled (polledWord 0x0025 202) atSecondReport) = 1
   \<and> extrusionCommandedSinceLastSync (handlePolled (polledWord 0x0025 202) atSecondReport) \<noteq> 0"
  using atSecondReport_hyps(2)
  by (simp add: atSecondReport_step)
     (simp add: atSecondReport_eq example_defs trustWindow_def SyncDelayMillis_def)

subsection \<open>The calibration and comparison state machine\<close>

text \<open>
  Claim C4, as the code has it. A comparison request made while no position report has
  ever been received changes nothing. Once data has been received: a request in the idle
  state moves the machine to calibrating, whatever the amounts, and stores the window as the
  lifetime totals; a request in the calibrating state adds the window to the totals and
  moves the machine to comparing exactly when the lifetime commanded extrusion is then at
  least 10, and at that transition the backwards flag becomes (lifetime measured movement
  < 0), the lifetime measured movement becomes its absolute value, and the ratio of lifetime
  movement to lifetime extrusion becomes both the running minimum and the running maximum
  ratio. From the comparing state on, no sequence of comparison windows, whatever movement
  they report, leaves the comparing state or changes the backwards flag. \<^verbatim>\<open>Reset()\<close>
  returns the machine to idle and keeps the flag, so that the calibration starts again.
\<close>

theorem calibration_state_machine:
  "(\<not> dataReceived s \<longrightarrow> snd (CheckFilament ac am od s) = s)
   \<and> (dataReceived s \<and> magneticMonitorState s = idle \<longrightarrow>
        magneticMonitorState (snd (CheckFilament ac am od s)) = calibrating
        \<and> totalExtrusionCommanded (snd (CheckFilament ac am od s)) = ac
        \<and> totalMovementMeasured (snd (CheckFilament ac am od s)) = am
        \<and> backwards (snd (CheckFilament ac am od s)) = backwards s)
   \<and> (dataReceived s \<and> magneticMonitorState s = calibrating \<longrightarrow>
        totalExtrusionCommanded (snd (CheckFilament ac am od s)) = totalExtrusionCommanded s + ac
        \<and> (magneticMonitorState (snd (CheckFilament ac am od s)) = comparing
             \<longleftrightarrow> 10 \<le> totalExtrusionCommanded s + ac)
        \<and> (magneticMonitorState (snd (CheckFilament ac am od s)) = calibrating
             \<longleftrightarrow> totalExtrusionCommanded s + ac < 10))
   \<and> (dataReceived s \<and> magneticMonitorState s = calibrating
        \<and> totalExtrusionCommanded s + ac < 10 \<longrightarrow>
        backwards (snd (CheckFilament ac am od s)) = backwards s
        \<and> totalMovementMeasured (snd (CheckFilament ac am od s)) = totalMovementMeasured s + am)
   \<and> (dataReceived s \<and> magneticMonitorState s = calibrating
        \<and> 10 \<le> totalExtrusionCommanded s + ac \<longrightarrow>
        backwards (snd (CheckFilament ac am od s)) = (totalMovementMeasured s + am < 0)
        \<and> totalMovementMeasured (snd (CheckFilament ac am od s)) = \<bar>totalMovementMeasured s + am\<bar>
        \<and> minMovementRatio (snd (CheckFilament ac am od s))
            = Finite (\<bar>totalMovementMeasured s + am\<bar> / (totalExtrusionCommanded s + ac))
        \<and> maxMovementRatio (snd (CheckFilament ac am od s))
            = Finite (\<bar>totalMovementMeasured s + am\<bar> / (totalExtrusionCommanded s + ac)))
   \<and> (magneticMonitorState s = comparing \<longrightarrow>
        magneticMonitorState (CheckFilamentRun ws s) = comparing
        \<and> backwards (CheckFilamentRun ws s) = backwards s)
   \<and> magneticMonitorState (Reset s) = idle \<and> backwards (Reset s) = backwards s"
proof -
  have a: "\<not> dataReceived s \<longrightarrow> snd (CheckFilament ac am od s) = s"
    by (simp add: CheckFilament_no_data)
  have b: "dataReceived s \<and> magneticMonitorState s = idle \<longrightarrow>
        magneticMonitorState (snd (CheckFilament ac am od s)) = calibrating
        \<and> totalExtrusionCommanded (snd (CheckFilament ac am od s)) = ac
        \<and> totalMovementMeasured (snd (CheckFilament ac am od s)) = am
        \<and> backwards (snd (CheckFilament ac am od s)) = backwards s"
    by (simp add: CheckFilament_idle)
  have c: "dataReceived s \<and> magneticMonitorState s = calibrating \<longrightarrow>
        totalExtrusionCommanded (snd (CheckFilament ac am od s)) = totalExtrusionCommanded s + ac
        \<and> (magneticMonitorState (snd (CheckFilament ac am od s)) = comparing
             \<longleftrightarrow> 10 \<le> totalExtrusionCommanded s + ac)
        \<and> (magneticMonitorState (snd (CheckFilament ac am od s)) = calibrating
             \<longleftrightarrow> totalExtrusionCommanded s + ac < 10)"
    by (cases "10 \<le> totalExtrusionCommanded s + ac")
       (simp_all add: CheckFilament_calibrating_done CheckFilament_calibrating_short)
  have c2: "dataReceived s \<and> magneticMonitorState s = calibrating
        \<and> totalExtrusionCommanded s + ac < 10 \<longrightarrow>
        backwards (snd (CheckFilament ac am od s)) = backwards s
        \<and> totalMovementMeasured (snd (CheckFilament ac am od s)) = totalMovementMeasured s + am"
    by (simp add: CheckFilament_calibrating_short)
  have d: "dataReceived s \<and> magneticMonitorState s = calibrating
        \<and> 10 \<le> totalExtrusionCommanded s + ac \<longrightarrow>
        backwards (snd (CheckFilament ac am od s)) = (totalMovementMeasured s + am < 0)
        \<and> totalMovementMeasured (snd (CheckFilament ac am od s)) = \<bar>totalMovementMeasured s + am\<bar>
        \<and> minMovementRatio (snd (CheckFilament ac am od s))
            = Finite (\<bar>totalMovementMeasured s + am\<bar> / (totalExtrusionCommanded s + ac))
        \<and> maxMovementRatio (snd (CheckFilament ac am od s))
            = Finite (\<bar>totalMovementMeasured s + am\<bar> / (totalExtrusionCommanded s + ac))"
    by (simp add: CheckFilament_calibrating_done)
  have e: "magneticMonitorState s = comparing \<longrightarrow>
        magneticMonitorState (CheckFilamentRun ws s) = comparing
        \<and> backwards (CheckFilamentRun ws s) = backwards s"
    using CheckFilamentRun_comparing_keeps [of s ws] by blast
  have f: "magneticMonitorState (Reset s) = idle" "backwards (Reset s) = backwards s"
    by (simp_all add: Reset_def)
  from a b c c2 d e f show ?thesis by blast
qed

text \<open>
  The theorem on the monitor that has received a position word: a first window makes it
  calibrating, a second window (16 mm in total, -2 revolutions) makes it comparing and
  backwards with a lifetime movement of 2, two more windows, one of each sign, leave
  the flag set, and a reset makes the machine idle again.
\<close>

theorem calibration_state_machine_witness:
  "dataReceived receivingMonitor \<and> magneticMonitorState receivingMonitor = idle
   \<and> magneticMonitorState (CheckFilamentRun [(8, 1, False)] receivingMonitor) = calibrating
   \<and> magneticMonitorState (CheckFilamentRun [(8, 1, False), (8, - 3, False)] receivingMonitor)
       = comparing
   \<and> backwards (CheckFilamentRun [(8, 1, False), (8, - 3, False)] receivingMonitor)
   \<and> totalMovementMeasured (CheckFilamentRun [(8, 1, False), (8, - 3, False)] receivingMonitor) = 2
   \<and> backwards (CheckFilamentRun [(4, - 1 / 4, False), (4, 1 / 4, False)]
        (CheckFilamentRun [(8, 1, False), (8, - 3, False)] receivingMonitor))
   \<and> magneticMonitorState
        (Reset (CheckFilamentRun [(8, 1, False), (8, - 3, False)] receivingMonitor)) = idle"
proof -
  let ?s1 = "snd (CheckFilament 8 1 False receivingMonitor)"
  let ?s2 = "snd (CheckFilament 8 (- 3) False ?s1)"
  have f0: "dataReceived receivingMonitor" "magneticMonitorState receivingMonitor = idle"
    by (simp_all add: receivingMonitor_fields)
  from calibration_state_machine [of receivingMonitor 8 1 False "[]"] f0
  have f1: "magneticMonitorState ?s1 = calibrating" "totalExtrusionCommanded ?s1 = 8"
      "totalMovementMeasured ?s1 = 1"
    by simp_all
  have d1: "dataReceived ?s1"
    by (simp add: CheckFilament_idle f0)
  from calibration_state_machine [of ?s1 8 "- 3" False "[]"] f1 d1
  have f2: "magneticMonitorState ?s2 = comparing" "backwards ?s2" "totalMovementMeasured ?s2 = 2"
    by simp_all
  from calibration_state_machine [of ?s2 0 0 False "[(4, - 1 / 4, False), (4, 1 / 4, False)]"] f2
  have f3: "backwards (CheckFilamentRun [(4, - 1 / 4, False), (4, 1 / 4, False)] ?s2)"
    "magneticMonitorState (Reset ?s2) = idle"
    by simp_all
  from f0 f1 f2 f3 show ?thesis by simp
qed

text \<open>
  Claim C4 as the specification states it fails in three places, each on a run of checks
  of the example monitor. The first comparison request, forced by an overdue sync before
  any position report has arrived, answers no-data-received and leaves the state idle. A
  first window of 16 mm leaves the machine calibrating although the lifetime commanded
  extrusion has reached 10. And the backwards flag, set by a calibration with the wheel
  turning backwards, is written again by a later comparison window: \<^verbatim>\<open>Clear()\<close> returns
  the machine to idle, and the window that completes the next calibration, with the wheel
  turning forwards, clears the flag.
\<close>

theorem calibration_claim_counterexample:
  "\<not> dataReceived exampleMonitor \<and> magneticMonitorState exampleMonitor = idle
   \<and> fst (Check True False 0 16 False [] 1000 False exampleMonitor) = Status_noDataReceived
   \<and> magneticMonitorState (snd (Check True False 0 16 False [] 1000 False exampleMonitor)) = idle
   \<and> magneticMonitorState calibratingBackwards = calibrating
   \<and> totalExtrusionCommanded calibratingBackwards = 16
   \<and> magneticMonitorState calibratedBackwards = comparing \<and> backwards calibratedBackwards
   \<and> magneticMonitorState clearedMonitor = idle \<and> backwards clearedMonitor
   \<and> magneticMonitorState recalibrating = calibrating \<and> backwards recalibrating
   \<and> magneticMonitorState recalibrated = comparing \<and> \<not> backwards recalibrated"
proof -
  have a: "Check True False 0 16 False [] 1000 False exampleMonitor
      = (Status_noDataReceived, exampleMonitor\<lparr>extrusionCommandedSinceLastSync := 0\<rparr>)"
    by (simp add: example_defs run_defs)
  show ?thesis
    by (simp add: a calibratingBackwards_eq calibratedBackwards_eq clearedMonitor_eq
          recalibrating_eq recalibrated_eq)
       (simp add: example_defs)
qed

text \<open>
  Claim C6, as the code has it. With comparison enabled and data received, the fault
  decision of every window completed in the comparing state multiplies the window's ratio
  (measured movement, negated when backwards, over commanded extrusion) by the configured
  sensitivity \<^verbatim>\<open>mmPerRev\<close>, and the window that completes the calibration multiplies the
  lifetime ratio by the same configured sensitivity; a window in the idle state or one that
  does not complete the calibration gives ok. The measured sensitivity enters no decision.
  For a finite ratio the decision is: too little movement when ratio times sensitivity is
  below the minimum allowed, else too much movement when it is above the maximum allowed,
  else ok. A window of 0 mm has an infinity or NaN as its ratio and goes through the same
  decision: with no movement measured it is ok, and with a positive sensitivity it is too
  much movement when the movement is positive and too little when it is negative.
\<close>

theorem fault_decision_uses_configured_sensitivity:
  assumes "comparisonEnabled s" and "dataReceived s"
  shows "(magneticMonitorState s = comparing \<longrightarrow>
            fst (CheckFilament ac am od s)
              = faultDecision (mmPerRev s) (fdiv (if backwards s then - am else am) ac) s)
       \<and> (magneticMonitorState s = comparing \<and> ac \<noteq> 0 \<longrightarrow>
            fst (CheckFilament ac am od s)
              = faultDecision (mmPerRev s) (Finite ((if backwards s then - am else am) / ac)) s)
       \<and> (magneticMonitorState s = calibrating \<and> 10 \<le> totalExtrusionCommanded s + ac \<longrightarrow>
            fst (CheckFilament ac am od s)
              = faultDecision (mmPerRev s)
                  (Finite (\<bar>totalMovementMeasured s + am\<bar> / (totalExtrusionCommanded s + ac))) s)
       \<and> (magneticMonitorState s = calibrating \<and> totalExtrusionCommanded s + ac < 10 \<longrightarrow>
            fst (CheckFilament ac am od s) = Status_ok)
       \<and> (magneticMonitorState s = idle \<longrightarrow> fst (CheckFilament ac am od s) = Status_ok)
       \<and> faultDecision m (Finite r) s
           = (if r * m < minMovementAllowed s then Status_tooLittleMovement
              else if r * m > maxMovementAllowed s then Status_tooMuchMovement
              else Status_ok)
       \<and> faultDecision m (fdiv 0 0) s = Status_ok
       \<and> (0 < m \<and> 0 < am \<longrightarrow> faultDecision m (fdiv am 0) s = Status_tooMuchMovement)
       \<and> (0 < m \<and> am < 0 \<longrightarrow> faultDecision m (fdiv am 0) s = Status_tooLittleMovement)"
proof -
  have z: "faultDecision m (fdiv 0 0) s = Status_ok
       \<and> (0 < m \<and> 0 < am \<longrightarrow> faultDecision m (fdiv am 0) s = Status_tooMuchMovement)
       \<and> (0 < m \<and> am < 0 \<longrightarrow> faultDecision m (fdiv am 0) s = Status_tooLittleMovement)"
    by (simp add: faultDecision_def fdiv_def)
  have f: "faultDecision m (Finite r) s
           = (if r * m < minMovementAllowed s then Status_tooLittleMovement
              else if r * m > maxMovementAllowed s then Status_tooMuchMovement
              else Status_ok)"
    by (simp add: faultDecision_def)
  have c: "magneticMonitorState s = comparing \<longrightarrow>
            fst (CheckFilament ac am od s)
              = faultDecision (mmPerRev s) (fdiv (if backwards s then - am else am) ac) s"
    using assms by (simp add: CheckFilament_comparing_status)
  then have c2: "magneticMonitorState s = comparing \<and> ac \<noteq> 0 \<longrightarrow>
            fst (CheckFilament ac am od s)
              = faultDecision (mmPerRev s) (Finite ((if backwards s then - am else am) / ac)) s"
    by simp
  have r: "(magneticMonitorState s = calibrating \<and> 10 \<le> totalExtrusionCommanded s + ac \<longrightarrow>
            fst (CheckFilament ac am od s)
              = faultDecision (mmPerRev s)
                  (Finite (\<bar>totalMovementMeasured s + am\<bar> / (totalExtrusionCommanded s + ac))) s)
       \<and> (magneticMonitorState s = calibrating \<and> totalExtrusionCommanded s + ac < 10 \<longrightarrow>
            fst (CheckFilament ac am od s) = Status_ok)
       \<and> (magneticMonitorState s = idle \<longrightarrow> fst (CheckFilament ac am od s) = Status_ok)"
    using assms
    by (simp add: CheckFilament_calibrating_done CheckFilament_calibrating_short CheckFilament_idle)
  from z f c c2 r show ?thesis by blast
qed

text \<open>
  The theorem on the calibrated monitor (16 mm per revolution configured, 75 to 150 percent
  allowed): windows of 4 mm with 1/4, 1/8 and 1/2 revolution measured are 100, 50 and 200
  percent of the configured sensitivity; a window of 0 mm is ok with no movement and too
  much movement with a revolution measured.
\<close>

theorem fault_decision_uses_configured_sensitivity_witness:
  "comparisonEnabled comparingMonitor \<and> dataReceived comparingMonitor
   \<and> magneticMonitorState comparingMonitor = comparing
   \<and> fst (CheckFilament 4 (1 / 4) False comparingMonitor) = Status_ok
   \<and> fst (CheckFilament 4 (1 / 8) False comparingMonitor) = Status_tooLittleMovement
   \<and> fst (CheckFilament 4 (1 / 2) False comparingMonitor) = Status_tooMuchMovement
   \<and> fst (CheckFilament 0 0 False comparingMonitor) = Status_ok
   \<and> fst (CheckFilament 0 1 False comparingMonitor) = Status_tooMuchMovement"
  using fault_decision_uses_configured_sensitivity
          [of comparingMonitor 4 "1 / 4" False 16 0, OF comparingMonitor_fields(3) comparingMonitor_fields(1)]
        fault_decision_uses_configured_sensitivity
          [of comparingMonitor 4 "1 / 8" False 16 0, OF comparingMonitor_fields(3) comparingMonitor_fields(1)]
        fault_decision_uses_configured_sensitivity
          [of comparingMonitor 4 "1 / 2" False 16 0, OF comparingMonitor_fields(3) comparingMonitor_fields(1)]
        fault_decision_uses_configured_sensitivity
          [of comparingMonitor 0 0 False 16 0, OF comparingMonitor_fields(3) comparingMonitor_fields(1)]
        fault_decision_uses_configured_sensitivity
          [of comparingMonitor 0 1 False 16 0, OF comparingMonitor_fields(3) comparingMonitor_fields(1)]
  by (simp add: comparingMonitor_fields faultDecision_def fdiv_def)

text \<open>
  Claim C6 as the specification states it fails: the calibrated monitor has measured 8 mm
  per revolution against 16 configured. A window of 4 mm and 1/4 revolution is ok for the
  code; scaled by the measured sensitivity, before or after the window is added to the
  lifetime totals, it would be too little movement. (After the window the measured
  sensitivity is 80/9, which single precision rounds; the scaled ratio, 5/9, is well below
  the threshold 3/4.)
\<close>

theorem measured_sensitivity_not_used:
  "magneticMonitorState comparingMonitor = comparing
   \<and> comparisonEnabled comparingMonitor \<and> dataReceived comparingMonitor
   \<and> mmPerRev comparingMonitor = 16 \<and> MeasuredSensitivity comparingMonitor = Finite 8
   \<and> fst (CheckFilament 4 (1 / 4) False comparingMonitor) = Status_ok
   \<and> faultDecision 8 (fdiv (1 / 4) 4) comparingMonitor = Status_tooLittleMovement
   \<and> MeasuredSensitivity (snd (CheckFilament 4 (1 / 4) False comparingMonitor)) = Finite (80 / 9)
   \<and> faultDecision (80 / 9) (fdiv (1 / 4) 4) comparingMonitor = Status_tooLittleMovement"
proof -
  have m: "MeasuredSensitivity comparingMonitor = Finite 8"
    by (simp add: MeasuredSensitivity_def comparingMonitor_fields)
  have c: "fst (CheckFilament 4 (1 / 4) False comparingMonitor) = Status_ok"
    by (simp add: CheckFilament_comparing_status comparingMonitor_fields faultDecision_def)
  have t: "totalExtrusionCommanded (snd (CheckFilament 4 (1 / 4) False comparingMonitor)) = 20"
     "totalMovementMeasured (snd (CheckFilament 4 (1 / 4) False comparingMonitor)) = 9 / 4"
    by (simp_all add: CheckFilament_def Let_def comparingMonitor_fields)
  have m2: "MeasuredSensitivity (snd (CheckFilament 4 (1 / 4) False comparingMonitor))
      = Finite (80 / 9)"
    by (simp add: MeasuredSensitivity_def t)
  show ?thesis
    by (simp add: m m2 c comparingMonitor_fields faultDecision_def)
qed

subsection \<open>The periodic check\<close>

text \<open>
  Claim C5, as the code has it. For every check in which, after the receive buffer has been
  processed, the sensor-error flag is clear, the switch-open bit of the stored word is
  clear and the this-segment extrusion is below the minimum check length: if the combined
  commanded extrusion reaches three times the minimum check length, more than 500 ms
  (32-bit clock difference) have passed since the last position report and no reception is
  in progress, then the check is a comparison of the combined commanded and measured
  amounts, and afterwards all four accumulators are zero.
\<close>

theorem overdue_sync_forces_comparison:
  assumes "s1 = CheckIncoming isPrinting fromIsr isrMillis filamentConsumed waiting items s"
    and "\<not> sensorError s1" and "sensorValue s1 AND switchOpenMask s1 = 0"
    and "extrusionCommandedThisSegment s1 < minimumExtrusionCheckLength s1"
    and "minimumExtrusionCheckLength s1 * 3
           \<le> extrusionCommandedThisSegment s1 + extrusionCommandedSinceLastSync s1"
    and "500 < now - lastMeasurementTime s1" and "\<not> receiving"
  shows
    "fst (Check isPrinting fromIsr isrMillis filamentConsumed waiting items now receiving s)
       = (if comparisonEnabled s1
          then fst (CheckFilament
                 (extrusionCommandedThisSegment s1 + extrusionCommandedSinceLastSync s1)
                 (movementMeasuredThisSegment s1 + movementMeasuredSinceLastSync s1) True s1)
          else Status_ok)
     \<and> snd (Check isPrinting fromIsr isrMillis filamentConsumed waiting items now receiving s)
       = (snd (CheckFilament
                 (extrusionCommandedThisSegment s1 + extrusionCommandedSinceLastSync s1)
                 (movementMeasuredThisSegment s1 + movementMeasuredSinceLastSync s1) True s1))
           \<lparr>extrusionCommandedThisSegment := 0, extrusionCommandedSinceLastSync := 0,
            movementMeasuredThisSegment := 0, movementMeasuredSinceLastSync := 0\<rparr>
     \<and> extrusionCommandedThisSegment
         (snd (Check isPrinting fromIsr isrMillis filamentConsumed waiting items now receiving s)) = 0
     \<and> extrusionCommandedSinceLastSync
         (snd (Check isPrinting fromIsr isrMillis filamentConsumed waiting items now receiving s)) = 0
     \<and> movementMeasuredThisSegment
         (snd (Check isPrinting fromIsr isrMillis filamentConsumed waiting items now receiving s)) = 0
     \<and> movementMeasuredSinceLastSync
         (snd (Check isPrinting fromIsr isrMillis filamentConsumed waiting items now receiving s)) = 0"
proof -
  have o: "syncOverdue now receiving s1"
    using assms(5-7) by (simp add: syncOverdue_def)
  have c: "Check isPrinting fromIsr isrMillis filamentConsumed waiting items now receiving s
      = CheckDecide now receiving s1"
    by (simp add: Check_def assms(1))
  show ?thesis
    by (simp add: c CheckDecide_overdue [OF assms(2-4) o])
qed

text \<open>
  The theorem on the monitor that has received a position word at time 0: a check at time
  1000 with 16 mm commanded and an empty receive buffer compares (the state becomes
  calibrating with a lifetime extrusion of 16) and clears the four accumulators.
\<close>

theorem overdue_sync_forces_comparison_witness:
  "\<not> sensorError (CheckIncoming True False 0 16 False [] receivingMonitor)
   \<and> extrusionCommandedThisSegment (CheckIncoming True False 0 16 False [] receivingMonitor) = 0
   \<and> extrusionCommandedSinceLastSync (CheckIncoming True False 0 16 False [] receivingMonitor) = 16
   \<and> minimumExtrusionCheckLength (CheckIncoming True False 0 16 False [] receivingMonitor) = 3
   \<and> lastMeasurementTime (CheckIncoming True False 0 16 False [] receivingMonitor) = 0
   \<and> fst (Check True False 0 16 False [] 1000 False receivingMonitor) = Status_ok
   \<and> magneticMonitorState (snd (Check True False 0 16 False [] 1000 False receivingMonitor))
       = calibrating
   \<and> totalExtrusionCommanded (snd (Check True False 0 16 False [] 1000 False receivingMonitor)) = 16
   \<and> extrusionCommandedThisSegment
        (snd (Check True False 0 16 False [] 1000 False receivingMonitor)) = 0
   \<and> extrusionCommandedSinceLastSync
        (snd (Check True False 0 16 False [] 1000 False receivingMonitor)) = 0
   \<and> movementMeasuredThisSegment
        (snd (Check True False 0 16 False [] 1000 False receivingMonitor)) = 0
   \<and> movementMeasuredSinceLastSync
        (snd (Check True False 0 16 False [] 1000 False receivingMonitor)) = 0"
proof -
  let ?s1 = "CheckIncoming True False 0 16 False [] receivingMonitor"
  have e: "?s1 = receivingMonitor\<lparr>extrusionCommandedSinceLastSync := 16\<rparr>"
    by (simp add: CheckIncoming_def receivingMonitor_eq example_defs Let_def)
  have h: "\<not> sensorError ?s1" "sensorValue ?s1 AND switchOpenMask ?s1 = 0"
     "extrusionCommandedThisSegment ?s1 < minimumExtrusionCheckLength ?s1"
     "minimumExtrusionCheckLength ?s1 * 3
           \<le> extrusionCommandedThisSegment ?s1 + extrusionCommandedSinceLastSync ?s1"
     "500 < (1000 :: uint32_t) - lastMeasurementTime ?s1" "\<not> False"
    unfolding e by (simp_all add: receivingMonitor_eq example_defs)
  have f: "extrusionCommandedThisSegment ?s1 = 0" "extrusionCommandedSinceLastSync ?s1 = 16"
     "minimumExtrusionCheckLength ?s1 = 3" "lastMeasurementTime ?s1 = 0"
     "dataReceived ?s1" "magneticMonitorState ?s1 = idle" "comparisonEnabled ?s1"
    unfolding e by (simp_all add: receivingMonitor_eq example_defs)
  from overdue_sync_forces_comparison [OF refl h] h(1) f
  show ?thesis by (simp add: CheckFilament_def)
qed

text \<open>
  Claim C5 as the specification states it fails: after a version word and an error word all
  the conditions of the claim hold (0 mm in this segment, 16 mm in total, 1000 ms since the
  last report, nothing being received), and the check neither compares (the state stays
  idle) nor clears the accumulators, because the sensor error is tested first.
\<close>

theorem sensor_error_blocks_overdue_comparison:
  "sensorError erroredMonitor
   \<and> extrusionCommandedThisSegment erroredMonitor < minimumExtrusionCheckLength erroredMonitor
   \<and> minimumExtrusionCheckLength erroredMonitor * 3
        \<le> extrusionCommandedThisSegment erroredMonitor + extrusionCommandedSinceLastSync erroredMonitor
   \<and> 500 < 1000 - lastMeasurementTime erroredMonitor
   \<and> snd (Check True False 0 16 False [polledWord 0x6003 0, polledWord 0x2001 1] 1000 False
             exampleMonitor) = erroredMonitor
   \<and> extrusionCommandedSinceLastSync
        (snd (Check True False 0 16 False [polledWord 0x6003 0, polledWord 0x2001 1] 1000 False
                exampleMonitor)) = 16
   \<and> magneticMonitorState
        (snd (Check True False 0 16 False [polledWord 0x6003 0, polledWord 0x2001 1] 1000 False
                exampleMonitor)) = idle"
proof -
  have c: "Check True False 0 16 False [polledWord 0x6003 0, polledWord 0x2001 1] 1000 False
             exampleMonitor = CheckDecide 1000 False erroredMonitor"
    by (simp add: Check_def erroredMonitor_def)
  have s: "sensorError erroredMonitor" by (simp add: erroredMonitor_eq)
  show ?thesis
    by (simp add: c CheckDecide_sensorError [OF s]) (simp add: erroredMonitor_eq example_defs)
qed

text \<open>
  The order of the tests in \<^verbatim>\<open>Check\<close>, with the monitor as steps 1 to 3 leave it: the
  status is ok when comparison is disabled; otherwise a set sensor-error flag gives
  sensor-error whatever else holds (data received or not, switch open or not); otherwise a
  set switch-open bit gives no-filament; otherwise, when a comparison is due (enough
  extrusion in this segment, or a sync overdue) and no position report has ever been
  received, the status is no-data-received. So no-data-received is returned only with the
  sensor error clear, the switch closed and no data received, and a ratio fault only with
  the sensor error clear, the switch closed and data received.
\<close>

lemma Check_status_order:
  assumes "s1 = CheckIncoming isPrinting fromIsr isrMillis filamentConsumed waiting items s"
    and "status = fst (Check isPrinting fromIsr isrMillis filamentConsumed waiting items
                         now receiving s)"
  shows
    "(\<not> comparisonEnabled s1 \<longrightarrow> status = Status_ok)
     \<and> (comparisonEnabled s1 \<and> sensorError s1 \<longrightarrow> status = Status_sensorError)
     \<and> (comparisonEnabled s1 \<and> \<not> sensorError s1 \<and> sensorValue s1 AND switchOpenMask s1 \<noteq> 0
          \<longrightarrow> status = Status_noFilament)
     \<and> (comparisonEnabled s1 \<and> \<not> sensorError s1 \<and> sensorValue s1 AND switchOpenMask s1 = 0
          \<and> \<not> dataReceived s1
          \<and> (minimumExtrusionCheckLength s1 \<le> extrusionCommandedThisSegment s1
               \<or> syncOverdue now receiving s1)
          \<longrightarrow> status = Status_noDataReceived)
     \<and> (status = Status_noDataReceived
          \<longrightarrow> \<not> sensorError s1 \<and> sensorValue s1 AND switchOpenMask s1 = 0 \<and> \<not> dataReceived s1)
     \<and> (status = Status_tooLittleMovement \<or> status = Status_tooMuchMovement
          \<longrightarrow> comparisonEnabled s1 \<and> \<not> sensorError s1
              \<and> sensorValue s1 AND switchOpenMask s1 = 0 \<and> dataReceived s1)"
proof -
  have c: "status = fst (CheckDecide now receiving s1)"
    by (simp add: assms Check_def)
  consider (err) "sensorError s1"
    | (switchOpen) "\<not> sensorError s1" "sensorValue s1 AND switchOpenMask s1 \<noteq> 0"
    | (window) "\<not> sensorError s1" "sensorValue s1 AND switchOpenMask s1 = 0"
        "minimumExtrusionCheckLength s1 \<le> extrusionCommandedThisSegment s1"
    | (overdue) "\<not> sensorError s1" "sensorValue s1 AND switchOpenMask s1 = 0"
        "extrusionCommandedThisSegment s1 < minimumExtrusionCheckLength s1"
        "syncOverdue now receiving s1"
    | (rest) "\<not> sensorError s1" "sensorValue s1 AND switchOpenMask s1 = 0"
        "extrusionCommandedThisSegment s1 < minimumExtrusionCheckLength s1"
        "\<not> syncOverdue now receiving s1"
    by fastforce
  then show ?thesis
  proof cases
    case err
    then show ?thesis by (simp add: c CheckDecide_sensorError)
  next
    case switchOpen
    then show ?thesis by (simp add: c CheckDecide_noFilament)
  next
    case window
    have "status = (if comparisonEnabled s1
      then fst (CheckFilament (extrusionCommandedThisSegment s1) (movementMeasuredThisSegment s1) False s1)
      else Status_ok)"
      by (simp add: c CheckDecide_window [OF window])
    with window
      CheckFilament_status_cases [of s1 "extrusionCommandedThisSegment s1"
        "movementMeasuredThisSegment s1" False]
    show ?thesis by (cases "comparisonEnabled s1") auto
  next
    case overdue
    have "status = (if comparisonEnabled s1
      then fst (CheckFilament (extrusionCommandedThisSegment s1 + extrusionCommandedSinceLastSync s1)
                  (movementMeasuredThisSegment s1 + movementMeasuredSinceLastSync s1) True s1)
      else Status_ok)"
      by (simp add: c CheckDecide_overdue [OF overdue])
    with overdue
      CheckFilament_status_cases [of s1
        "extrusionCommandedThisSegment s1 + extrusionCommandedSinceLastSync s1"
        "movementMeasuredThisSegment s1 + movementMeasuredSinceLastSync s1" True]
    show ?thesis by (cases "comparisonEnabled s1") auto
  next
    case rest
    then show ?thesis by (simp add: c CheckDecide_not_due)
  qed
qed

text \<open>
  Claim C1. The claim puts no-data-received first: a monitor that has never received a
  position report answers no-data-received at a completed comparison window, also when a
  sensor error is active. \<^verbatim>\<open>Clear()\<close> tests in that order. \<^verbatim>\<open>Check\<close> does not: it tests
  the sensor-error flag before it reaches the test of received data in
  \<^verbatim>\<open>CheckFilament\<close>. On the example monitor, when the sensor has sent the version 1 error
  word and no position word and a comparison is due (16 mm commanded, 1000 ms since the
  last report, nothing being received), \<^verbatim>\<open>Check\<close> answers sensor-error where the claim
  says no-data-received; \<^verbatim>\<open>Clear()\<close>, on the same monitor and the same word, answers
  no-data-received, and so does \<^verbatim>\<open>Check\<close> itself when the error word is left out.
\<close>

theorem sensor_error_overrides_no_data:
  "\<not> dataReceived v1ErroredMonitor \<and> sensorError v1ErroredMonitor
   \<and> comparisonEnabled v1ErroredMonitor
   \<and> sensorValue v1ErroredMonitor AND switchOpenMask v1ErroredMonitor = 0
   \<and> syncOverdue 1000 False v1ErroredMonitor
   \<and> fst (Check True False 0 16 False [polledWord 0x8000 0] 1000 False exampleMonitor)
       = Status_sensorError
   \<and> fst (Check True False 0 16 False [polledWord 0x8000 0] 1000 False exampleMonitor)
       \<noteq> Status_noDataReceived
   \<and> fst (Clear [polledWord 0x8000 0] exampleMonitor) = Status_noDataReceived
   \<and> sensorError (snd (Clear [polledWord 0x8000 0] exampleMonitor))
   \<and> fst (Check True False 0 16 False [] 1000 False exampleMonitor) = Status_noDataReceived"
proof -
  have c: "Check True False 0 16 False [polledWord 0x8000 0] 1000 False exampleMonitor
      = CheckDecide 1000 False v1ErroredMonitor"
    by (simp add: Check_def v1ErroredMonitor_def)
  have s: "sensorError v1ErroredMonitor" by (simp add: v1ErroredMonitor_eq)
  have k: "fst (Clear [polledWord 0x8000 0] exampleMonitor) = Status_noDataReceived"
      "sensorError (snd (Clear [polledWord 0x8000 0] exampleMonitor))"
    by (simp_all add: Clear_def example_defs handlePolled_def decodeWord_def parityFold_def
          masks Let_def)
  have n: "fst (Check True False 0 16 False [] 1000 False exampleMonitor) = Status_noDataReceived"
    by (simp add: example_defs run_defs)
  show ?thesis
    by (simp add: c k n CheckDecide_sensorError [OF s])
       (simp add: v1ErroredMonitor_eq example_defs syncOverdue_def)
qed

end
